theory Spec2Isabelle
  imports Main
begin

section \<open>JavaScript strings\<close>

text \<open>
  A JavaScript string is a sequence of code units. The model uses \<^typ>\<open>string\<close>, so it
  covers the strings whose code units are below 256; \<open>length\<close> counts code units, as
  \<^verbatim>\<open>String.prototype.length\<close> does. Every literal the analyzer searches for is ASCII.
\<close>

definition isSpace :: "char \<Rightarrow> bool" where
  \<comment> \<open>WhiteSpace and LineTerminator code units below 256: what \<^verbatim>\<open>trim\<close> strips and
      what \<^verbatim>\<open>\s\<close> matches.\<close>
  "isSpace c = (c \<in> set [CHR 0x09, CHR 0x0A, CHR 0x0B, CHR 0x0C, CHR 0x0D, CHR 0x20, CHR 0xA0])"

definition isLineTerminator :: "char \<Rightarrow> bool" where
  \<comment> \<open>The code units a \<^verbatim>\<open>.\<close> of a regular expression does not match.\<close>
  "isLineTerminator c = (c = CHR 0x0A \<or> c = CHR 0x0D)"

definition toLowerChar :: "char \<Rightarrow> char" where
  "toLowerChar c =
     (let n = (of_char c :: nat)
      in if (65 \<le> n \<and> n \<le> 90) \<or> (192 \<le> n \<and> n \<le> 222 \<and> n \<noteq> 215)
         then char_of (n + 32) else c)"

definition toLowerCase :: "string \<Rightarrow> string" where
  "toLowerCase s = map toLowerChar s"

definition startsWith :: "string \<Rightarrow> string \<Rightarrow> bool" where
  "startsWith s p = (take (length p) s = p)"

fun includes_js :: "string \<Rightarrow> string \<Rightarrow> bool" where
  "includes_js [] p = (p = [])"
| "includes_js (c # cs) p = (startsWith (c # cs) p \<or> includes_js cs p)"

definition trim :: "string \<Rightarrow> string" where
  "trim s = rev (dropWhile isSpace (rev (dropWhile isSpace s)))"

text \<open>
  \<^verbatim>\<open>s.split(/\s+/)\<close>: the pieces between the maximal runs of white space. The empty
  string gives one empty piece, and a run at either end gives an empty piece there.
\<close>

function split_ws :: "string \<Rightarrow> string list" where
  "split_ws [] = [[]]"
| "split_ws (c # cs) =
     (if isSpace c then [] # split_ws (dropWhile isSpace cs)
      else (case split_ws cs of [] \<Rightarrow> [[c]] | w # ws \<Rightarrow> (c # w) # ws))"
  by pat_completeness auto
termination
  by (relation "measure length") (auto simp: le_imp_less_Suc length_dropWhile_le)

text \<open>The decimal text of a count, as a template literal interpolates it.\<close>

definition digit :: "nat \<Rightarrow> char" where
  "digit d = char_of (48 + d)"

function toString :: "nat \<Rightarrow> string" where
  "toString n = (if n < 10 then [digit n] else toString (n div 10) @ [digit (n mod 10)])"
  by pat_completeness auto
termination
  by (relation "measure id") auto

declare toString.simps [simp del]


section \<open>Data model\<close>

text \<open>
  The icons are code points above 255, so they are constructors here, in the order the
  source uses them: U+1F50D, U+26A1, U+1F680, U+1F464, U+270D U+FE0F, U+267F and
  U+26A0 U+FE0F.
\<close>

datatype icon = Magnifier | HighVoltage | Rocket | Bust | WritingHand | Wheelchair | Warning

record advisory =
  "text" :: string
  source :: string

record buckets =
  seo :: "advisory list"
  performance :: "advisory list"
  wordpress :: "advisory list"
  ux :: "advisory list"
  accessibility :: "advisory list"
  content :: "advisory list"

record output_group =
  category :: string
  icon :: icon
  priority :: string
  items :: "advisory list"

definition push_seo :: "advisory \<Rightarrow> buckets \<Rightarrow> buckets" where
  "push_seo a r = r\<lparr>seo := seo r @ [a]\<rparr>"

definition push_performance :: "advisory \<Rightarrow> buckets \<Rightarrow> buckets" where
  "push_performance a r = r\<lparr>performance := performance r @ [a]\<rparr>"

definition push_wordpress :: "advisory \<Rightarrow> buckets \<Rightarrow> buckets" where
  "push_wordpress a r = r\<lparr>wordpress := wordpress r @ [a]\<rparr>"

definition push_ux :: "advisory \<Rightarrow> buckets \<Rightarrow> buckets" where
  "push_ux a r = r\<lparr>ux := ux r @ [a]\<rparr>"

definition push_accessibility :: "advisory \<Rightarrow> buckets \<Rightarrow> buckets" where
  "push_accessibility a r = r\<lparr>accessibility := accessibility r @ [a]\<rparr>"

definition push_content :: "advisory \<Rightarrow> buckets \<Rightarrow> buckets" where
  "push_content a r = r\<lparr>content := content r @ [a]\<rparr>"

definition no_results :: buckets where
  "no_results = \<lparr>seo = [], performance = [], wordpress = [], ux = [],
                   accessibility = [], content = []\<rparr>"

subsection \<open>The document queries\<close>

text \<open>
  The DOM library (cheerio) is not part of the repository. The model takes what
  \<^verbatim>\<open>cheerio.load(html)\<close> returns as a function from a selector to the matched elements
  in document order. Of an element the analysis reads its attributes and its text
  content. \<^verbatim>\<open>.attr(name)\<close> reads the attribute of the first matched element and is
  \<^verbatim>\<open>undefined\<close> (\<open>None\<close>) when nothing matched or the attribute is absent;
  \<^verbatim>\<open>.text()\<close> joins the text contents of the matched elements.
\<close>

record element =
  attribs :: "(string \<times> string) list"
  textContent :: string

type_synonym selection = "element list"

type_synonym cheerio = "string \<Rightarrow> selection"

definition attr :: "selection \<Rightarrow> string \<Rightarrow> string option" where
  "attr sel name = (case sel of [] \<Rightarrow> None | e # _ \<Rightarrow> map_of (attribs e) name)"

definition text_js :: "selection \<Rightarrow> string" where
  "text_js sel = concat (map textContent sel)"

definition falsy :: "string option \<Rightarrow> bool" where
  \<comment> \<open>\<^verbatim>\<open>!v\<close> for a value that is a string or \<^verbatim>\<open>undefined\<close>.\<close>
  "falsy v = (v = None \<or> v = Some [])"

definition safeText :: "string \<Rightarrow> string" where
  "safeText element = (if element \<noteq> [] then trim element else [])"

subsection \<open>The world of one request\<close>

text \<open>
  \<^verbatim>\<open>axios.get\<close> hands over \<^verbatim>\<open>response.data\<close>, and axios parses a body that is valid JSON.
  So what arrives is a JSON value: the string \<open>JString s\<close> when the page is text, as every
  HTML document is, and a value of another kind when the body was JSON. The analysis
  never reads a number, so integers stand for the numbers.
\<close>

datatype json =
    JNull
  | JBool bool
  | JNumber int
  | JString string
  | JArray "json list"
  | JObject "(string \<times> json) list"

text \<open>
  What an invocation reads from outside. \<open>axios_get\<close> is the answer of
  \<^verbatim>\<open>axios.get\<close> for a URL: \<open>Inr\<close> the data, \<open>Inl\<close> the message of the error it throws on
  a timeout, a transport error or a non-success status. \<open>fetch\<close> is the answer of the
  built-in \<^verbatim>\<open>fetch\<close>: \<open>Inl\<close> when the request is rejected, otherwise the response with
  its \<^verbatim>\<open>ok\<close> flag, its status and the outcome of reading its body. The two readings of
  \<^verbatim>\<open>Date.now()\<close> are those before the request and after the page is in.
  \<open>cheerio_load\<close> is the DOM library on a text; \<open>cheerio_load_value\<close> is what
  \<^verbatim>\<open>cheerio.load\<close> makes of data that is not a string, \<open>None\<close> when it throws.
  \<open>toFixed1\<close> gives the text of \<^verbatim>\<open>(loadTime/1000).toFixed(1)\<close>, which is floating-point
  formatting of the JavaScript runtime and is taken as it comes.
\<close>

record response =
  ok :: bool
  status :: nat
  body_text :: "string + string"

record world =
  axios_get :: "string \<Rightarrow> string + json"
  fetch :: "string \<Rightarrow> string + response"
  now_before :: int
  now_after :: int
  cheerio_load :: "string \<Rightarrow> cheerio"
  cheerio_load_value :: "json \<Rightarrow> cheerio option"
  toFixed1 :: "int \<Rightarrow> string"

definition load :: "world \<Rightarrow> json \<Rightarrow> cheerio option" where
  \<comment> \<open>\<^verbatim>\<open>cheerio.load(html)\<close>.\<close>
  "load w html =
     (case html of JString s \<Rightarrow> Some (cheerio_load w s) | _ \<Rightarrow> cheerio_load_value w html)"

text \<open>
  The methods the analysis calls on \<^verbatim>\<open>html\<close>, \<open>None\<close> standing for the \<^verbatim>\<open>TypeError\<close> of
  calling what is not a function. A string has all three. An array has
  \<^verbatim>\<open>includes\<close>, which looks for an element equal to the argument, and neither
  \<^verbatim>\<open>match\<close> nor \<^verbatim>\<open>toLowerCase\<close>. The other values have none of them.
\<close>


section \<open>The advisories\<close>

text \<open>Each advisory literal of the source, under a name; the interpolated ones take the value.\<close>

definition use_https :: advisory where
  "use_https =
     \<lparr>text = ''Site should use HTTPS for security and SEO benefits'',
      source = ''Google HTTPS ranking factor''\<rparr>"

definition url_long :: advisory where
  "url_long =
     \<lparr>text = ''URL is quite long - consider shortening for better SEO'',
      source = ''SEO best practices''\<rparr>"

definition missing_title :: advisory where
  "missing_title =
     \<lparr>text = ''Missing page title - add a descriptive title tag'',
      source = ''Google SEO guidelines''\<rparr>"

definition title_long :: "nat \<Rightarrow> advisory" where
  "title_long n =
     \<lparr>text = ''Page title is '' @ toString n @
             '' characters - should be 50-60 for optimal display'',
      source = ''Google SERP optimization''\<rparr>"

definition title_short :: advisory where
  "title_short =
     \<lparr>text = ''Page title seems short - consider making it more descriptive'',
      source = ''SEO title optimization''\<rparr>"

definition missing_description :: advisory where
  "missing_description =
     \<lparr>text = ''Missing meta description - add one for better search results'',
      source = ''Google SEO best practices''\<rparr>"

definition description_long :: "nat \<Rightarrow> advisory" where
  "description_long n =
     \<lparr>text = ''Meta description is '' @ toString n @
             '' characters - should be 150-160'',
      source = ''Google SERP guidelines''\<rparr>"

definition images_without_alt :: "nat \<Rightarrow> advisory" where
  "images_without_alt n =
     \<lparr>text = ''Found '' @ toString n @
             '' images without alt text - add for accessibility'',
      source = ''WCAG 2.1 accessibility standards''\<rparr>"

definition no_h1 :: advisory where
  "no_h1 =
     \<lparr>text = ''No H1 heading found - add one for better SEO structure'',
      source = ''SEO heading hierarchy''\<rparr>"

definition multiple_h1 :: "nat \<Rightarrow> advisory" where
  "multiple_h1 n =
     \<lparr>text = ''Found '' @ toString n @
             '' H1 headings - should typically have only one per page'',
      source = ''SEO best practices''\<rparr>"

definition wordpress_detected :: advisory where
  "wordpress_detected =
     \<lparr>text = ''WordPress site detected - great choice for content management'',
      source = ''WordPress site analysis''\<rparr>"

definition wordpress_theme :: "string \<Rightarrow> advisory" where
  "wordpress_theme t =
     \<lparr>text = ''Using WordPress theme: '' @ t @
             '' - ensure it's regularly updated'',
      source = ''WordPress security best practices''\<rparr>"

definition install_jetpack :: advisory where
  "install_jetpack =
     \<lparr>text = ''Consider installing Jetpack for enhanced performance and security'',
      source = ''WordPress.com recommendations''\<rparr>"

definition optimize_images :: advisory where
  "optimize_images =
     \<lparr>text = ''Optimize images using WordPress.com built-in compression'',
      source = ''WordPress.com performance features''\<rparr>"

definition slow_load :: "string \<Rightarrow> advisory" where
  "slow_load secs =
     \<lparr>text = ''Page loaded in '' @ secs @
             '' seconds - should be under 3 seconds'',
      source = ''Google Core Web Vitals''\<rparr>"

definition missing_open_graph :: advisory where
  "missing_open_graph =
     \<lparr>text = ''Missing Open Graph tags - add for better social media sharing'',
      source = ''Facebook Open Graph documentation''\<rparr>"

definition limited_content :: advisory where
  "limited_content =
     \<lparr>text = ''Page has limited content - consider adding more valuable information'',
      source = ''Content quality guidelines''\<rparr>"

definition no_contact :: advisory where
  "no_contact =
     \<lparr>text = ''No obvious contact information found - make it easy for users to reach you'',
      source = ''User experience best practices''\<rparr>"

definition missing_viewport :: advisory where
  "missing_viewport =
     \<lparr>text = ''Missing viewport meta tag - important for mobile responsiveness'',
      source = ''Google Mobile-First indexing''\<rparr>"

definition no_structured_data :: advisory where
  "no_structured_data =
     \<lparr>text = ''No structured data found - consider adding schema markup'',
      source = ''Google structured data guidelines''\<rparr>"

definition generic_performance :: advisory where
  "generic_performance =
     \<lparr>text = ''Consider implementing image optimization and caching for better performance'',
      source = ''Web performance best practices''\<rparr>"

definition generic_ux :: advisory where
  "generic_ux =
     \<lparr>text = ''Add clear call-to-action buttons to guide user behavior'',
      source = ''Conversion optimization guidelines''\<rparr>"

definition unable_to_analyze :: advisory where
  "unable_to_analyze =
     \<lparr>text = ''Unable to fully analyze site - ensure it's publicly accessible'',
      source = ''Site accessibility check''\<rparr>"

definition consider_hosting :: advisory where
  "consider_hosting =
     \<lparr>text = ''Consider WordPress.com hosting for reliable performance and security'',
      source = ''WordPress.com hosting benefits''\<rparr>"

text \<open>The advisories only the variant without the DOM library has.\<close>

definition business_plan :: advisory where
  "business_plan =
     \<lparr>text = ''Consider upgrading to WordPress.com Business plan for advanced customization and SEO tools'',
      source = ''WordPress.com plan recommendations for growing sites''\<rparr>"

definition ecommerce_plan :: advisory where
  "ecommerce_plan =
     \<lparr>text = ''Site mentions products/shopping - consider WordPress.com Business plan with WooCommerce for e-commerce'',
      source = ''E-commerce functionality analysis''\<rparr>"

definition consider_migrating :: advisory where
  "consider_migrating =
     \<lparr>text = ''Consider migrating to WordPress.com for better content management'',
      source = ''Platform recommendation''\<rparr>"

definition access_restrictions :: advisory where
  "access_restrictions =
     \<lparr>text = ''Unable to fully analyze site - may have access restrictions'',
      source = ''Connection analysis''\<rparr>"

definition publicly_accessible :: advisory where
  "publicly_accessible =
     \<lparr>text = ''Ensure site is publicly accessible and not blocking automated requests'',
      source = ''Accessibility check''\<rparr>"

definition hosting_benefits :: advisory where
  "hosting_benefits =
     \<lparr>text = ''Consider WordPress.com hosting for reliable performance and security'',
      source = ''WordPress.com benefits''\<rparr>"

definition platform_optimization :: advisory where
  "platform_optimization =
     \<lparr>text = ''WordPress.com sites are optimized for speed and SEO out of the box'',
      source = ''Platform optimization''\<rparr>"


section \<open>The analysis with the DOM library\<close>

text \<open>
  \<^verbatim>\<open>analyzeWebsite\<close> runs its checks one after the other on the six buckets, inside one
  \<^verbatim>\<open>try\<close> block. A check is named after the comment that heads it in the source. A
  check that only reads the URL or the document is a function from the buckets to the
  buckets. A check that calls a method of \<^verbatim>\<open>html\<close> can throw, and then the buckets stay as
  they are at that moment: such a check gives an outcome, and so does the block.
\<close>

datatype outcome = is_Done: Done (buckets_of: buckets) | Thrown (buckets_of: buckets)

definition andThen :: "outcome \<Rightarrow> (buckets \<Rightarrow> outcome) \<Rightarrow> outcome" where
  \<comment> \<open>The next statement runs only when nothing has been thrown.\<close>
  "andThen x next_check = (case x of Done r \<Rightarrow> next_check r | Thrown r \<Rightarrow> Thrown r)"

definition step :: "(buckets \<Rightarrow> buckets) \<Rightarrow> buckets \<Rightarrow> outcome" where
  \<comment> \<open>A check that cannot throw.\<close>
  "step check r = Done (check r)"

definition httpsCheck :: "string \<Rightarrow> buckets \<Rightarrow> buckets" where
  "httpsCheck url r = (if \<not> startsWith url ''https://'' then push_seo use_https r else r)"

definition urlLengthCheck :: "string \<Rightarrow> buckets \<Rightarrow> buckets" where
  "urlLengthCheck url r = (if length url > 60 then push_seo url_long r else r)"

definition titleAnalysis :: "cheerio \<Rightarrow> buckets \<Rightarrow> buckets" where
  "titleAnalysis dollar r =
     (let title = safeText (text_js (dollar ''title''))
      in if title = [] then push_seo missing_title r
         else if length title > 60 then push_seo (title_long (length title)) r
         else if length title < 30 then push_seo title_short r
         else r)"

definition metaDescriptionAnalysis :: "cheerio \<Rightarrow> buckets \<Rightarrow> buckets" where
  "metaDescriptionAnalysis dollar r =
     (case attr (dollar ''meta[name=\"description\"]'') ''content'' of
        None \<Rightarrow> push_seo missing_description r
      | Some metaDesc \<Rightarrow>
          if metaDesc = [] then push_seo missing_description r
          else if length metaDesc > 160 then push_seo (description_long (length metaDesc)) r
          else r)"

definition imagesWithoutAlt :: "selection \<Rightarrow> nat" where
  \<comment> \<open>The counting loop over \<^verbatim>\<open>$('img')\<close>.\<close>
  "imagesWithoutAlt images =
     fold (\<lambda>img n. if falsy (attr [img] ''alt'') then n + 1 else n) images 0"

definition imageAltAnalysis :: "cheerio \<Rightarrow> buckets \<Rightarrow> buckets" where
  "imageAltAnalysis dollar r =
     (let n = imagesWithoutAlt (dollar ''img'')
      in if n > 0 then push_accessibility (images_without_alt n) r else r)"

definition headingAnalysis :: "cheerio \<Rightarrow> buckets \<Rightarrow> buckets" where
  "headingAnalysis dollar r =
     (let h1Count = length (dollar ''h1'')
      in if h1Count = 0 then push_seo no_h1 r
         else if h1Count > 1 then push_seo (multiple_h1 h1Count) r
         else r)"

definition includes_of :: "json \<Rightarrow> string \<Rightarrow> bool option" where
  \<comment> \<open>\<^verbatim>\<open>html.includes(x)\<close>.\<close>
  "includes_of html x =
     (case html of
        JString s \<Rightarrow> Some (includes_js s x)
      | JArray elements \<Rightarrow> Some (JString x \<in> set elements)
      | _ \<Rightarrow> None)"

definition isWordPress :: "json \<Rightarrow> cheerio \<Rightarrow> bool option" where
  "isWordPress html dollar =
     (case includes_of html ''wp-content'' of
        None \<Rightarrow> None
      | Some wpContent \<Rightarrow>
          if wpContent then Some True
          else
            (case includes_of html ''wordpress'' of
               None \<Rightarrow> None
             | Some wordpressText \<Rightarrow>
                 if wordpressText then Some True
                 else
                   Some (case attr (dollar ''meta[name=\"generator\"]'') ''content'' of
                           None \<Rightarrow> False
                         | Some generator \<Rightarrow> includes_js generator ''WordPress'')))"

text \<open>
  \<^verbatim>\<open>html.match(/wp-content\/themes\/([^\/]+)/)\<close>, its first group: at the leftmost place
  where the literal stands before a character other than a slash, the characters up to
  the next slash.
\<close>

fun themeMatch :: "string \<Rightarrow> string option" where
  "themeMatch [] = None"
| "themeMatch (c # cs) =
     (let name = takeWhile (\<lambda>x. x \<noteq> CHR ''/'') (drop 18 (c # cs))
      in if startsWith (c # cs) ''wp-content/themes/'' \<and> name \<noteq> [] then Some name
         else themeMatch cs)"

definition themeMatch_of :: "json \<Rightarrow> string option option" where
  \<comment> \<open>\<^verbatim>\<open>html.match(...)\<close>: the outer \<open>None\<close> is the \<^verbatim>\<open>TypeError\<close>.\<close>
  "themeMatch_of html = (case html of JString s \<Rightarrow> Some (themeMatch s) | _ \<Rightarrow> None)"

definition themeCheck :: "json \<Rightarrow> buckets \<Rightarrow> outcome" where
  \<comment> \<open>The statement under \<^verbatim>\<open>// WordPress-specific checks\<close>.\<close>
  "themeCheck html r =
     (case includes_of html ''wp-content/themes/'' of
        None \<Rightarrow> Thrown r
      | Some themes \<Rightarrow>
          if themes then
            (case themeMatch_of html of
               None \<Rightarrow> Thrown r
             | Some None \<Rightarrow> Done r
             | Some (Some theme) \<Rightarrow> Done (push_wordpress (wordpress_theme theme) r))
          else Done r)"

definition jetpackCheck :: "json \<Rightarrow> buckets \<Rightarrow> outcome" where
  "jetpackCheck html r =
     (case includes_of html ''jetpack'' of
        None \<Rightarrow> Thrown r
      | Some jetpack \<Rightarrow> Done (if \<not> jetpack then push_wordpress install_jetpack r else r))"

definition wordpressChecks :: "json \<Rightarrow> cheerio \<Rightarrow> buckets \<Rightarrow> outcome" where
  "wordpressChecks html dollar r =
     (case isWordPress html dollar of
        None \<Rightarrow> Thrown r
      | Some detected \<Rightarrow>
          if detected then
            andThen (andThen (Done (push_wordpress wordpress_detected r)) (themeCheck html))
              (jetpackCheck html)
          else Done r)"

definition performanceAnalysis :: "world \<Rightarrow> int \<Rightarrow> buckets \<Rightarrow> buckets" where
  "performanceAnalysis w loadTime r =
     (if loadTime > 3000 then push_performance (slow_load (toFixed1 w loadTime)) r else r)"

definition openGraphCheck :: "cheerio \<Rightarrow> buckets \<Rightarrow> buckets" where
  "openGraphCheck dollar r =
     (let ogTitle = attr (dollar ''meta[property=\"og:title\"]'') ''content'';
          ogDesc = attr (dollar ''meta[property=\"og:description\"]'') ''content''
      in if falsy ogTitle \<or> falsy ogDesc then push_seo missing_open_graph r else r)"

definition contentAnalysis :: "cheerio \<Rightarrow> buckets \<Rightarrow> buckets" where
  "contentAnalysis dollar r =
     (let textContent = text_js (dollar ''body'');
          wordCount = length (split_ws textContent)
      in if wordCount < 300 then push_content limited_content r else r)"

definition noContactInfo :: "string \<Rightarrow> bool" where
  \<comment> \<open>The condition of the contact check.\<close>
  "noContactInfo html =
     (\<not> includes_js (toLowerCase html) ''contact'' \<and>
      \<not> includes_js (toLowerCase html) ''email'' \<and>
      \<not> includes_js (toLowerCase html) ''@'')"

definition contactCheck :: "json \<Rightarrow> buckets \<Rightarrow> outcome" where
  \<comment> \<open>The condition starts with \<^verbatim>\<open>html.toLowerCase()\<close>, which only a string has.\<close>
  "contactCheck html r =
     (case html of
        JString s \<Rightarrow> Done (if noContactInfo s then push_ux no_contact r else r)
      | _ \<Rightarrow> Thrown r)"

definition viewportMissing :: "cheerio \<Rightarrow> bool" where
  \<comment> \<open>The condition of the viewport check.\<close>
  "viewportMissing dollar =
     (let viewport = attr (dollar ''meta[name=\"viewport\"]'') ''content'' in falsy viewport)"

definition viewportCheck :: "cheerio \<Rightarrow> buckets \<Rightarrow> buckets" where
  "viewportCheck dollar r = (if viewportMissing dollar then push_ux missing_viewport r else r)"

definition schemaCheck :: "json \<Rightarrow> cheerio \<Rightarrow> buckets \<Rightarrow> outcome" where
  "schemaCheck html dollar r =
     (case includes_of html ''schema.org'' of
        None \<Rightarrow> Thrown r
      | Some schema \<Rightarrow>
          Done (if \<not> schema \<and> length (dollar ''script[type=\"application/ld+json\"]'') = 0
                then push_seo no_structured_data r else r))"

definition wordpressRecommendations :: "json \<Rightarrow> cheerio \<Rightarrow> buckets \<Rightarrow> outcome" where
  \<comment> \<open>The source reads the constant \<^verbatim>\<open>isWordPress\<close> again; a run that gets here has
      computed it without throwing.\<close>
  "wordpressRecommendations html dollar r =
     (case isWordPress html dollar of
        None \<Rightarrow> Thrown r
      | Some detected \<Rightarrow> Done (if detected then push_wordpress optimize_images r else r))"

definition generalPerformance :: "buckets \<Rightarrow> buckets" where
  "generalPerformance r =
     (if length (performance r) = 0 then push_performance generic_performance r else r)"

definition generalUx :: "buckets \<Rightarrow> buckets" where
  "generalUx r = (if length (ux r) = 0 then push_ux generic_ux r else r)"

definition analysis :: "world \<Rightarrow> string \<Rightarrow> json \<Rightarrow> buckets \<Rightarrow> outcome" where
  \<comment> \<open>The body of the \<^verbatim>\<open>try\<close> block after the data has arrived. The source also
      builds \<^verbatim>\<open>new URL(url)\<close> there and never reads it; the request for the same URL
      has succeeded, so this does not throw.\<close>
  "analysis w url html r =
     (let loadTime = now_after w - now_before w
      in case load w html of
           None \<Rightarrow> Thrown r
         | Some dollar \<Rightarrow>
             foldl andThen (Done r)
               [step (httpsCheck url), step (urlLengthCheck url), step (titleAnalysis dollar),
                step (metaDescriptionAnalysis dollar), step (imageAltAnalysis dollar),
                step (headingAnalysis dollar), wordpressChecks html dollar,
                step (performanceAnalysis w loadTime), step (openGraphCheck dollar),
                step (contentAnalysis dollar), contactCheck html,
                step (viewportCheck dollar), schemaCheck html dollar,
                wordpressRecommendations html dollar, step generalPerformance,
                step generalUx])"

definition catchBlock :: "buckets \<Rightarrow> buckets" where
  \<comment> \<open>The \<^verbatim>\<open>catch\<close> of \<^verbatim>\<open>analyzeWebsite\<close>, on the buckets as the \<^verbatim>\<open>try\<close> block left them.\<close>
  "catchBlock r = push_wordpress consider_hosting (push_seo unable_to_analyze r)"

definition analyzeWebsite :: "world \<Rightarrow> string \<Rightarrow> buckets" where
  "analyzeWebsite w url =
     (case axios_get w url of
        Inl message \<Rightarrow> catchBlock no_results
      | Inr html \<Rightarrow>
          (case analysis w url html no_results of
             Done r \<Rightarrow> r
           | Thrown r \<Rightarrow> catchBlock r))"

text \<open>\<^verbatim>\<open>compileResults\<close>: one group for each bucket that is not empty.\<close>

definition compileResults :: "buckets \<Rightarrow> output_group list" where
  "compileResults improvements =
     (if length (seo improvements) > 0 then
        [\<lparr>category = ''SEO Optimization'', icon = Magnifier, priority = ''high'',
          items = seo improvements\<rparr>] else []) @
     (if length (wordpress improvements) > 0 then
        [\<lparr>category = ''WordPress.com Specific'', icon = HighVoltage, priority = ''high'',
          items = wordpress improvements\<rparr>] else []) @
     (if length (performance improvements) > 0 then
        [\<lparr>category = ''Performance'', icon = Rocket, priority = ''medium'',
          items = performance improvements\<rparr>] else []) @
     (if length (ux improvements) > 0 then
        [\<lparr>category = ''User Experience'', icon = Bust, priority = ''medium'',
          items = ux improvements\<rparr>] else []) @
     (if length (content improvements) > 0 then
        [\<lparr>category = ''Content & Structure'', icon = WritingHand, priority = ''medium'',
          items = content improvements\<rparr>] else []) @
     (if length (accessibility improvements) > 0 then
        [\<lparr>category = ''Accessibility'', icon = Wheelchair, priority = ''low'',
          items = accessibility improvements\<rparr>] else [])"


section \<open>The endpoint\<close>

text \<open>
  A request carries its method and, when it has a body, the \<^verbatim>\<open>url\<close> field of the body:
  absent, a string, or a value of another type, of which only the truth value matters
  (\<^verbatim>\<open>url.startsWith\<close> is not a function then, and the outer \<^verbatim>\<open>catch\<close> answers).
  A reply is the status code (200 when the source sets none) and the JSON sent.
\<close>

datatype url_field = Undefined | Str string | FalsyValue | TruthyValue

record request =
  "method" :: string
  body :: "url_field option"

datatype reply_body =
    End
  | Error string
  | Result (reply_url: string) (reply_improvements: "output_group list")

record reply =
  status_code :: nat
  json :: reply_body

definition ensureProtocol :: "string \<Rightarrow> string" where
  \<comment> \<open>The lines under \<^verbatim>\<open>// Ensure URL has protocol\<close>, the same in both handlers.\<close>
  "ensureProtocol url =
     (if \<not> startsWith url ''http://'' \<and> \<not> startsWith url ''https://''
      then ''https://'' @ url else url)"

definition handler :: "world \<Rightarrow> request \<Rightarrow> reply" where
  "handler w req =
     (if method req = ''OPTIONS'' then \<lparr>status_code = 200, json = End\<rparr>
      else if method req \<noteq> ''POST'' then
        \<lparr>status_code = 405, json = Error ''Method not allowed''\<rparr>
      else
        (case body req of
           None \<Rightarrow> \<lparr>status_code = 500, json = Error ''Analysis failed''\<rparr>
         | Some Undefined \<Rightarrow> \<lparr>status_code = 400, json = Error ''URL is required''\<rparr>
         | Some FalsyValue \<Rightarrow> \<lparr>status_code = 400, json = Error ''URL is required''\<rparr>
         | Some TruthyValue \<Rightarrow> \<lparr>status_code = 500, json = Error ''Analysis failed''\<rparr>
         | Some (Str url) \<Rightarrow>
             if url = [] then \<lparr>status_code = 400, json = Error ''URL is required''\<rparr>
             else
               (let targetUrl = ensureProtocol url;
                    improvements = analyzeWebsite w targetUrl;
                    results = compileResults improvements
                in \<lparr>status_code = 200, json = Result targetUrl results\<rparr>)))"

section \<open>The variant without the DOM library\<close>

text \<open>
  The first handler of \<^verbatim>\<open>analyze.js\<close> fetches with the built-in \<^verbatim>\<open>fetch\<close> and analyzes
  with string methods and regular expressions (\<^verbatim>\<open>analyzeHTML\<close>). Its source text is
  damaged inside \<^verbatim>\<open>hasEcommerce\<close>: the last call breaks off after
  \<^verbatim>\<open>htmlLower.includes('\<close>, the rest of the function from the performance check on
  is inserted there once, and the original continues after it. The model reads the
  function without the insertion, and the broken argument as the dollar sign.
\<close>

definition startsWith_ci :: "string \<Rightarrow> string \<Rightarrow> bool" where
  \<comment> \<open>A lower-case ASCII literal under the \<^verbatim>\<open>i\<close> flag, at the front of \<open>s\<close>.\<close>
  "startsWith_ci s p = startsWith (toLowerCase (take (length p) s)) p"

definition notGt :: "char \<Rightarrow> bool" where
  "notGt x = (x \<noteq> CHR ''>'')"

text \<open>
  \<^verbatim>\<open>html.match(/<tag[^>]*>/gi)\<close> for the literal \<open>p\<close> (\<^verbatim>\<open><img\<close> or \<^verbatim>\<open><h1\<close>): every match
  from left to right, each running to the first \<^verbatim>\<open>>\<close> after the literal, the search
  going on behind it.
\<close>

function tagMatches :: "string \<Rightarrow> string \<Rightarrow> string list" where
  "tagMatches p [] = []"
| "tagMatches p (c # cs) =
     (if startsWith_ci (c # cs) p \<and> \<not> list_all notGt (drop (length p) (c # cs))
      then (take (length p) (c # cs) @ takeWhile notGt (drop (length p) (c # cs)) @ ''>'')
           # tagMatches p (tl (dropWhile notGt (drop (length p) (c # cs))))
      else tagMatches p cs)"
  by pat_completeness auto
termination
proof (relation "measure (\<lambda>(p, s). length s)")
  show "wf (measure (\<lambda>(p, s). length s))" by simp
next
  fix p :: string and c :: char and cs :: string
  assume "startsWith_ci (c # cs) p \<and> \<not> list_all notGt (drop (length p) (c # cs))"
  then have ne: "dropWhile notGt (drop (length p) (c # cs)) \<noteq> []"
    by (simp add: list_all_iff)
  have "length (dropWhile notGt (drop (length p) (c # cs))) \<le> length (c # cs)"
    by (rule order_trans [OF length_dropWhile_le]) simp
  with ne have "length (tl (dropWhile notGt (drop (length p) (c # cs)))) < length (c # cs)"
    by (cases "dropWhile notGt (drop (length p) (c # cs))") auto
  then show "((p, tl (dropWhile notGt (drop (length p) (c # cs)))), (p, c # cs))
               \<in> measure (\<lambda>(p, s). length s)"
    by simp
next
  fix p :: string and c :: char and cs :: string
  show "((p, cs), (p, c # cs)) \<in> measure (\<lambda>(p, s). length s)" by simp
qed

text \<open>
  \<^verbatim>\<open>html.match(/<title[^>]*>(.*?)<\/title>/i)\<close>, its first group. \<open>afterGt\<close> is
  \<^verbatim>\<open>[^>]*>\<close> at the front of a string: what follows the first \<^verbatim>\<open>>\<close>. \<open>lazyToClose\<close>
  is \<^verbatim>\<open>(.*?)<\/title>\<close> at the front: the shortest text without a line terminator
  that the closing tag follows.
\<close>

definition afterGt :: "string \<Rightarrow> string option" where
  "afterGt s = (if list_all notGt s then None else Some (tl (dropWhile notGt s)))"

fun lazyToClose :: "string \<Rightarrow> string option" where
  "lazyToClose [] = None"
| "lazyToClose (c # cs) =
     (if startsWith_ci (c # cs) ''</title>'' then Some []
      else if isLineTerminator c then None
      else map_option ((#) c) (lazyToClose cs))"

fun titleMatch :: "string \<Rightarrow> string option" where
  "titleMatch [] = None"
| "titleMatch (c # cs) =
     (if startsWith_ci (c # cs) ''<title'' then
        (case afterGt (drop 6 (c # cs)) of
           None \<Rightarrow> titleMatch cs
         | Some rest \<Rightarrow>
             (case lazyToClose rest of None \<Rightarrow> titleMatch cs | Some title \<Rightarrow> Some title))
      else titleMatch cs)"


definition titleCheck :: "string \<Rightarrow> buckets \<Rightarrow> buckets" where
  "titleCheck html r =
     (case titleMatch html of
        None \<Rightarrow> push_seo missing_title r
      | Some group1 \<Rightarrow>
          (let title = trim group1
           in if length title > 60 then push_seo (title_long (length title)) r
              else if length title < 30 then push_seo title_short r
              else r))"

definition metaDescriptionCheck :: "string \<Rightarrow> buckets \<Rightarrow> buckets" where
  "metaDescriptionCheck htmlLower r =
     (if \<not> includes_js htmlLower ''name=\"description\"'' then push_seo missing_description r
      else r)"

definition imgTagsWithoutAlt :: "string list \<Rightarrow> nat" where
  \<comment> \<open>The \<^verbatim>\<open>forEach\<close> over the matched tags.\<close>
  "imgTagsWithoutAlt imgMatches =
     fold (\<lambda>img n. if \<not> includes_js img ''alt='' then n + 1 else n) imgMatches 0"

definition imageAltCheck :: "string \<Rightarrow> buckets \<Rightarrow> buckets" where
  "imageAltCheck html r =
     (let n = imgTagsWithoutAlt (tagMatches ''<img'' html)
      in if n > 0 then push_accessibility (images_without_alt n) r else r)"

definition h1Check :: "string \<Rightarrow> buckets \<Rightarrow> buckets" where
  "h1Check html r =
     (let h1Matches = tagMatches ''<h1'' html
      in if length h1Matches = 0 then push_seo no_h1 r
         else if length h1Matches > 1 then push_seo (multiple_h1 (length h1Matches)) r
         else r)"

definition isWordPressLower :: "string \<Rightarrow> bool" where
  \<comment> \<open>\<^verbatim>\<open>isWordPress\<close> of \<^verbatim>\<open>analyzeHTML\<close>, on the lower-cased text.\<close>
  "isWordPressLower htmlLower =
     (includes_js htmlLower ''wp-content'' \<or> includes_js htmlLower ''wordpress'' \<or>
      includes_js htmlLower ''wp-includes'')"

definition wordpressCheck :: "string \<Rightarrow> buckets \<Rightarrow> buckets" where
  "wordpressCheck htmlLower r =
     (if isWordPressLower htmlLower then
        (let r1 = push_wordpress wordpress_detected r;
             hasCustomTheme = (includes_js htmlLower ''wp-content/themes/'' \<and>
                               \<not> includes_js htmlLower ''twentytwenty'' \<and>
                               \<not> includes_js htmlLower ''twentynineteen'' \<and>
                               \<not> includes_js htmlLower ''twentyeighteen'');
             hasPlugins = includes_js htmlLower ''wp-content/plugins/'';
             hasJetpack = includes_js htmlLower ''jetpack'';
             hasEcommerce = (includes_js htmlLower ''shop'' \<or> includes_js htmlLower ''buy'' \<or>
                             includes_js htmlLower ''cart'' \<or> includes_js htmlLower ''product'' \<or>
                             includes_js htmlLower ''store'' \<or> includes_js htmlLower ''price'' \<or>
                             includes_js htmlLower ''$'');
             r2 = (if \<not> hasCustomTheme \<and> \<not> hasPlugins then push_wordpress business_plan r1
                   else r1);
             r3 = (if hasEcommerce \<and> \<not> includes_js htmlLower ''woocommerce''
                   then push_wordpress ecommerce_plan r2 else r2);
             r4 = (if \<not> hasJetpack then push_wordpress install_jetpack r3 else r3)
         in push_wordpress optimize_images r4)
      else push_wordpress consider_migrating r)"

definition openGraphTagCheck :: "string \<Rightarrow> buckets \<Rightarrow> buckets" where
  "openGraphTagCheck htmlLower r =
     (if \<not> includes_js htmlLower ''property=\"og:title\"'' then push_seo missing_open_graph r
      else r)"

definition viewportTagCheck :: "string \<Rightarrow> buckets \<Rightarrow> buckets" where
  "viewportTagCheck htmlLower r =
     (if \<not> includes_js htmlLower ''name=\"viewport\"'' then push_ux missing_viewport r else r)"

definition contactInfoCheck :: "string \<Rightarrow> buckets \<Rightarrow> buckets" where
  "contactInfoCheck htmlLower r =
     (if \<not> includes_js htmlLower ''contact'' \<and> \<not> includes_js htmlLower ''@'' \<and>
         \<not> includes_js htmlLower ''email''
      then push_ux no_contact r else r)"

definition issuesHTML :: "world \<Rightarrow> string \<Rightarrow> string \<Rightarrow> int \<Rightarrow> buckets" where
  \<comment> \<open>The six lists of \<^verbatim>\<open>analyzeHTML\<close> before they are compiled.\<close>
  "issuesHTML w html url loadTime =
     (let htmlLower = toLowerCase html
      in foldl (\<lambda>r check. check r) no_results
           [httpsCheck url, titleCheck html, metaDescriptionCheck htmlLower,
            imageAltCheck html, h1Check html, wordpressCheck htmlLower,
            performanceAnalysis w loadTime, openGraphTagCheck htmlLower,
            viewportTagCheck htmlLower, contactInfoCheck htmlLower,
            generalPerformance, generalUx])"

definition compileHTML :: "buckets \<Rightarrow> output_group list" where
  \<comment> \<open>The tail of \<^verbatim>\<open>analyzeHTML\<close> under \<^verbatim>\<open>// Compile results\<close>; the content list is
      not compiled there.\<close>
  "compileHTML r =
     (if length (seo r) > 0 then
        [\<lparr>category = ''SEO Optimization'', icon = Magnifier, priority = ''high'',
          items = seo r\<rparr>] else []) @
     (if length (wordpress r) > 0 then
        [\<lparr>category = ''WordPress.com Specific'', icon = HighVoltage, priority = ''high'',
          items = wordpress r\<rparr>] else []) @
     (if length (performance r) > 0 then
        [\<lparr>category = ''Performance'', icon = Rocket, priority = ''medium'',
          items = performance r\<rparr>] else []) @
     (if length (ux r) > 0 then
        [\<lparr>category = ''User Experience'', icon = Bust, priority = ''medium'',
          items = ux r\<rparr>] else []) @
     (if length (accessibility r) > 0 then
        [\<lparr>category = ''Accessibility'', icon = Wheelchair, priority = ''low'',
          items = accessibility r\<rparr>] else [])"

definition analyzeHTML :: "world \<Rightarrow> string \<Rightarrow> string \<Rightarrow> int \<Rightarrow> output_group list" where
  "analyzeHTML w html url loadTime = compileHTML (issuesHTML w html url loadTime)"

definition fallbackResults :: "output_group list" where
  "fallbackResults =
     [\<lparr>category = ''Site Access'', icon = Warning, priority = ''high'',
       items = [access_restrictions, publicly_accessible]\<rparr>,
      \<lparr>category = ''WordPress.com Recommendations'', icon = HighVoltage, priority = ''high'',
       items = [hosting_benefits, platform_optimization]\<rparr>]"

definition fetchAndAnalyze :: "world \<Rightarrow> string \<Rightarrow> output_group list" where
  \<comment> \<open>The inner \<^verbatim>\<open>try\<close> of the handler and its \<^verbatim>\<open>catch\<close>.\<close>
  "fetchAndAnalyze w targetUrl =
     (case fetch w targetUrl of
        Inl message \<Rightarrow> fallbackResults
      | Inr response \<Rightarrow>
          if \<not> ok response then fallbackResults
          else
            (case body_text response of
               Inl message \<Rightarrow> fallbackResults
             | Inr html \<Rightarrow>
                 (let loadTime = now_after w - now_before w
                  in analyzeHTML w html targetUrl loadTime)))"

definition handler_simplified :: "world \<Rightarrow> request \<Rightarrow> reply" where
  "handler_simplified w req =
     (if method req = ''OPTIONS'' then \<lparr>status_code = 200, json = End\<rparr>
      else if method req \<noteq> ''POST'' then
        \<lparr>status_code = 405, json = Error ''Method not allowed''\<rparr>
      else
        (case body req of
           None \<Rightarrow> \<lparr>status_code = 500, json = Error ''Analysis failed''\<rparr>
         | Some Undefined \<Rightarrow> \<lparr>status_code = 400, json = Error ''URL is required''\<rparr>
         | Some FalsyValue \<Rightarrow> \<lparr>status_code = 400, json = Error ''URL is required''\<rparr>
         | Some TruthyValue \<Rightarrow> \<lparr>status_code = 500, json = Error ''Analysis failed''\<rparr>
         | Some (Str url) \<Rightarrow>
             if url = [] then \<lparr>status_code = 400, json = Error ''URL is required''\<rparr>
             else
               (let targetUrl = ensureProtocol url
                in \<lparr>status_code = 200,
                    json = Result targetUrl (fetchAndAnalyze w targetUrl)\<rparr>)))"

section \<open>The presenter as the specification words it\<close>

text \<open>
  The specification gives the presenter as a table of bucket, label, icon and priority,
  read in table order, a row being left out when its bucket is empty.
\<close>

definition presenter_table ::
  "(string \<times> icon \<times> string \<times> (buckets \<Rightarrow> advisory list)) list" where
  "presenter_table =
     [(''SEO Optimization'', Magnifier, ''high'', seo),
      (''WordPress.com Specific'', HighVoltage, ''high'', wordpress),
      (''Performance'', Rocket, ''medium'', performance),
      (''User Experience'', Bust, ''medium'', ux),
      (''Content & Structure'', WritingHand, ''medium'', content),
      (''Accessibility'', Wheelchair, ''low'', accessibility)]"

definition presenter_row ::
  "buckets \<Rightarrow> string \<times> icon \<times> string \<times> (buckets \<Rightarrow> advisory list) \<Rightarrow> output_group list" where
  "presenter_row b row =
     (case row of (label, ic, prio, bucket) \<Rightarrow>
        if bucket b = [] then []
        else [\<lparr>category = label, icon = ic, priority = prio, items = bucket b\<rparr>])"

definition presenter :: "buckets \<Rightarrow> output_group list" where
  "presenter b = concat (map (presenter_row b) presenter_table)"

section \<open>Notions the properties are stated with\<close>

definition fetchFailed :: "world \<Rightarrow> string \<Rightarrow> bool" where
  \<comment> \<open>The page fetch of the variant without the DOM library fails: the request is
      rejected, the status is not a success, or reading the body is rejected.\<close>
  "fetchFailed w url =
     (case fetch w url of
        Inl message \<Rightarrow> True
      | Inr response \<Rightarrow> (if ok response then isl (body_text response) else True))"

definition title_advisories :: "advisory set" where
  \<comment> \<open>The three kinds of title advisory.\<close>
  "title_advisories = {missing_title, title_short} \<union> range title_long"

definition is_title_advisory :: "advisory \<Rightarrow> bool" where
  "is_title_advisory a = (a \<in> title_advisories)"

definition lacksAltAttribute :: "element \<Rightarrow> bool" where
  \<comment> \<open>The element has no \<^verbatim>\<open>alt\<close> attribute at all.\<close>
  "lacksAltAttribute img = (map_of (attribs img) ''alt'' = None)"


definition altAbsentOrEmpty :: "element \<Rightarrow> bool" where
  \<comment> \<open>The element has no \<^verbatim>\<open>alt\<close> attribute, or one whose value is the empty string.\<close>
  "altAbsentOrEmpty img =
     (case map_of (attribs img) ''alt'' of None \<Rightarrow> True | Some v \<Rightarrow> v = [])"

section \<open>Example pages and worlds\<close>

text \<open>
  \<open>serving html dollar\<close> is a world in which every request is answered with the text
  \<open>html\<close> after 4.2 seconds and the DOM library reads \<open>html\<close> as \<open>dollar\<close>. In \<open>offline\<close> every
  request runs into the timeout, and in \<open>refused\<close> every request is refused after 50
  milliseconds. In \<open>serving_json\<close> every request is answered after 200 milliseconds
  with a JSON object, which the DOM library takes for a document without elements.
\<close>

definition serving :: "string \<Rightarrow> cheerio \<Rightarrow> world" where
  "serving html dollar =
     \<lparr>axios_get = (\<lambda>url. Inr (JString html)),
      fetch = (\<lambda>url. Inr \<lparr>ok = True, status = 200, body_text = Inr html\<rparr>),
      now_before = 1000, now_after = 5200,
      cheerio_load = (\<lambda>h. dollar),
      cheerio_load_value = (\<lambda>v. Some (\<lambda>sel. [])),
      toFixed1 = (\<lambda>t. ''4.2'')\<rparr>"

definition offline :: world where
  "offline =
     \<lparr>axios_get = (\<lambda>url. Inl ''timeout of 10000ms exceeded''),
      fetch = (\<lambda>url. Inl ''The operation was aborted due to timeout''),
      now_before = 1000, now_after = 11000,
      cheerio_load = (\<lambda>h sel. []),
      cheerio_load_value = (\<lambda>v. Some (\<lambda>sel. [])),
      toFixed1 = (\<lambda>t. ''10.0'')\<rparr>"

definition refused :: world where
  "refused =
     \<lparr>axios_get = (\<lambda>url. Inl ''connect ECONNREFUSED 127.0.0.1:443''),
      fetch = (\<lambda>url. Inl ''fetch failed''),
      now_before = 1000, now_after = 1050,
      cheerio_load = (\<lambda>h sel. []),
      cheerio_load_value = (\<lambda>v. Some (\<lambda>sel. [])),
      toFixed1 = (\<lambda>t. ''0.1'')\<rparr>"

definition serving_json :: world where
  "serving_json =
     \<lparr>axios_get = (\<lambda>url. Inr (JObject [(''a'', JNumber 1)])),
      fetch = (\<lambda>url. Inr \<lparr>ok = True, status = 200, body_text = Inr ''{\"a\":1}''\<rparr>),
      now_before = 1000, now_after = 1200,
      cheerio_load = (\<lambda>h sel. []),
      cheerio_load_value = (\<lambda>v. Some (\<lambda>sel. [])),
      toFixed1 = (\<lambda>t. ''0.2'')\<rparr>"

definition post :: "string \<Rightarrow> request" where
  "post url = \<lparr>method = ''POST'', body = Some (Str url)\<rparr>"

text \<open>A WordPress page with a theme, no title and two images, one with \<^verbatim>\<open>alt=""\<close>.\<close>

definition theme_html :: string where
  "theme_html =
     ''<html><head><link rel=\"stylesheet\" href=\"/wp-content/themes/astra/style.css\">'' @
     ''</head><body><img src=\"a.png\"><img src=\"b.png\" alt=\"\"></body></html>''"

definition theme_dollar :: cheerio where
  "theme_dollar sel =
     (if sel = ''img'' then
        [\<lparr>attribs = [(''src'', ''a.png'')], textContent = []\<rparr>,
         \<lparr>attribs = [(''src'', ''b.png''), (''alt'', [])], textContent = []\<rparr>]
      else if sel = ''body'' then [\<lparr>attribs = [], textContent = []\<rparr>]
      else [])"

text \<open>A page that is not WordPress, with a title element that holds one blank.\<close>

definition blank_title_html :: string where
  "blank_title_html = ''<html><head><title> </title></head><body><p>Hello</p></body></html>''"

definition blank_title_dollar :: cheerio where
  "blank_title_dollar sel =
     (if sel = ''title'' then [\<lparr>attribs = [], textContent = '' ''\<rparr>]
      else if sel = ''body'' then [\<lparr>attribs = [], textContent = ''Hello''\<rparr>]
      else [])"

definition an_hour_later :: "world \<Rightarrow> world" where
  \<comment> \<open>The same world with both clock readings an hour on.\<close>
  "an_hour_later w =
     w\<lparr>now_before := now_before w + 3600000, now_after := now_after w + 3600000\<rparr>"

text \<open>A page whose title is 61 characters long.\<close>

definition long_title_html :: string where
  "long_title_html = ''<title>'' @ replicate 61 (CHR ''x'') @ ''</title>''"

definition long_title_dollar :: cheerio where
  "long_title_dollar sel =
     (if sel = ''title'' then [\<lparr>attribs = [], textContent = replicate 61 (CHR ''x'')\<rparr>]
      else [])"





section \<open>What each check does to each bucket\<close>

text \<open>
  A check appends to one bucket and leaves the other five as they are. These lemmas
  read the buckets of a run off the sequence of checks.
\<close>

lemma push_simps [simp]:
  "seo (push_seo a r) = seo r @ [a]"
  "performance (push_seo a r) = performance r"
  "wordpress (push_seo a r) = wordpress r"
  "ux (push_seo a r) = ux r"
  "accessibility (push_seo a r) = accessibility r"
  "content (push_seo a r) = content r"
  "seo (push_performance a r) = seo r"
  "performance (push_performance a r) = performance r @ [a]"
  "wordpress (push_performance a r) = wordpress r"
  "ux (push_performance a r) = ux r"
  "accessibility (push_performance a r) = accessibility r"
  "content (push_performance a r) = content r"
  "seo (push_wordpress a r) = seo r"
  "performance (push_wordpress a r) = performance r"
  "wordpress (push_wordpress a r) = wordpress r @ [a]"
  "ux (push_wordpress a r) = ux r"
  "accessibility (push_wordpress a r) = accessibility r"
  "content (push_wordpress a r) = content r"
  "seo (push_ux a r) = seo r"
  "performance (push_ux a r) = performance r"
  "wordpress (push_ux a r) = wordpress r"
  "ux (push_ux a r) = ux r @ [a]"
  "accessibility (push_ux a r) = accessibility r"
  "content (push_ux a r) = content r"
  "seo (push_accessibility a r) = seo r"
  "performance (push_accessibility a r) = performance r"
  "wordpress (push_accessibility a r) = wordpress r"
  "ux (push_accessibility a r) = ux r"
  "accessibility (push_accessibility a r) = accessibility r @ [a]"
  "content (push_accessibility a r) = content r"
  "seo (push_content a r) = seo r"
  "performance (push_content a r) = performance r"
  "wordpress (push_content a r) = wordpress r"
  "ux (push_content a r) = ux r"
  "accessibility (push_content a r) = accessibility r"
  "content (push_content a r) = content r @ [a]"
  by (simp_all add: push_seo_def push_performance_def push_wordpress_def push_ux_def
        push_accessibility_def push_content_def)

lemma no_results_simps [simp]:
  "seo no_results = []" "performance no_results = []" "wordpress no_results = []"
  "ux no_results = []" "accessibility no_results = []" "content no_results = []"
  by (simp_all add: no_results_def)

lemmas check_defs =
  httpsCheck_def urlLengthCheck_def titleAnalysis_def metaDescriptionAnalysis_def
  headingAnalysis_def openGraphCheck_def imageAltAnalysis_def performanceAnalysis_def
  generalPerformance_def contentAnalysis_def viewportCheck_def generalUx_def
  titleCheck_def metaDescriptionCheck_def h1Check_def openGraphTagCheck_def
  imageAltCheck_def wordpressCheck_def viewportTagCheck_def contactInfoCheck_def

lemma untouched_seo [simp]:
  "seo (imageAltAnalysis dollar r) = seo r"
  "seo (performanceAnalysis w loadTime r) = seo r"
  "seo (generalPerformance r) = seo r"
  "seo (contentAnalysis dollar r) = seo r"
  "seo (viewportCheck dollar r) = seo r"
  "seo (generalUx r) = seo r"
  "seo (imageAltCheck html r) = seo r"
  "seo (wordpressCheck htmlLower r) = seo r"
  "seo (viewportTagCheck htmlLower r) = seo r"
  "seo (contactInfoCheck htmlLower r) = seo r"
  by (simp_all add: check_defs Let_def split: option.split)

lemma untouched_performance [simp]:
  "performance (httpsCheck url r) = performance r"
  "performance (urlLengthCheck url r) = performance r"
  "performance (titleAnalysis dollar r) = performance r"
  "performance (metaDescriptionAnalysis dollar r) = performance r"
  "performance (headingAnalysis dollar r) = performance r"
  "performance (openGraphCheck dollar r) = performance r"
  "performance (imageAltAnalysis dollar r) = performance r"
  "performance (contentAnalysis dollar r) = performance r"
  "performance (viewportCheck dollar r) = performance r"
  "performance (generalUx r) = performance r"
  "performance (titleCheck html r) = performance r"
  "performance (metaDescriptionCheck htmlLower r) = performance r"
  "performance (h1Check html r) = performance r"
  "performance (openGraphTagCheck htmlLower r) = performance r"
  "performance (imageAltCheck html r) = performance r"
  "performance (wordpressCheck htmlLower r) = performance r"
  "performance (viewportTagCheck htmlLower r) = performance r"
  "performance (contactInfoCheck htmlLower r) = performance r"
  by (simp_all add: check_defs Let_def split: option.split)

lemma untouched_wordpress [simp]:
  "wordpress (httpsCheck url r) = wordpress r"
  "wordpress (urlLengthCheck url r) = wordpress r"
  "wordpress (titleAnalysis dollar r) = wordpress r"
  "wordpress (metaDescriptionAnalysis dollar r) = wordpress r"
  "wordpress (headingAnalysis dollar r) = wordpress r"
  "wordpress (openGraphCheck dollar r) = wordpress r"
  "wordpress (imageAltAnalysis dollar r) = wordpress r"
  "wordpress (performanceAnalysis w loadTime r) = wordpress r"
  "wordpress (generalPerformance r) = wordpress r"
  "wordpress (contentAnalysis dollar r) = wordpress r"
  "wordpress (viewportCheck dollar r) = wordpress r"
  "wordpress (generalUx r) = wordpress r"
  "wordpress (titleCheck html r) = wordpress r"
  "wordpress (metaDescriptionCheck htmlLower r) = wordpress r"
  "wordpress (h1Check html r) = wordpress r"
  "wordpress (openGraphTagCheck htmlLower r) = wordpress r"
  "wordpress (imageAltCheck html r) = wordpress r"
  "wordpress (viewportTagCheck htmlLower r) = wordpress r"
  "wordpress (contactInfoCheck htmlLower r) = wordpress r"
  by (simp_all add: check_defs Let_def split: option.split)

lemma untouched_ux [simp]:
  "ux (httpsCheck url r) = ux r"
  "ux (urlLengthCheck url r) = ux r"
  "ux (titleAnalysis dollar r) = ux r"
  "ux (metaDescriptionAnalysis dollar r) = ux r"
  "ux (headingAnalysis dollar r) = ux r"
  "ux (openGraphCheck dollar r) = ux r"
  "ux (imageAltAnalysis dollar r) = ux r"
  "ux (performanceAnalysis w loadTime r) = ux r"
  "ux (generalPerformance r) = ux r"
  "ux (contentAnalysis dollar r) = ux r"
  "ux (titleCheck html r) = ux r"
  "ux (metaDescriptionCheck htmlLower r) = ux r"
  "ux (h1Check html r) = ux r"
  "ux (openGraphTagCheck htmlLower r) = ux r"
  "ux (imageAltCheck html r) = ux r"
  "ux (wordpressCheck htmlLower r) = ux r"
  by (simp_all add: check_defs Let_def split: option.split)

lemma untouched_accessibility [simp]:
  "accessibility (httpsCheck url r) = accessibility r"
  "accessibility (urlLengthCheck url r) = accessibility r"
  "accessibility (titleAnalysis dollar r) = accessibility r"
  "accessibility (metaDescriptionAnalysis dollar r) = accessibility r"
  "accessibility (headingAnalysis dollar r) = accessibility r"
  "accessibility (openGraphCheck dollar r) = accessibility r"
  "accessibility (performanceAnalysis w loadTime r) = accessibility r"
  "accessibility (generalPerformance r) = accessibility r"
  "accessibility (contentAnalysis dollar r) = accessibility r"
  "accessibility (viewportCheck dollar r) = accessibility r"
  "accessibility (generalUx r) = accessibility r"
  "accessibility (titleCheck html r) = accessibility r"
  "accessibility (metaDescriptionCheck htmlLower r) = accessibility r"
  "accessibility (h1Check html r) = accessibility r"
  "accessibility (openGraphTagCheck htmlLower r) = accessibility r"
  "accessibility (wordpressCheck htmlLower r) = accessibility r"
  "accessibility (viewportTagCheck htmlLower r) = accessibility r"
  "accessibility (contactInfoCheck htmlLower r) = accessibility r"
  by (simp_all add: check_defs Let_def split: option.split)

lemma untouched_content [simp]:
  "content (httpsCheck url r) = content r"
  "content (urlLengthCheck url r) = content r"
  "content (titleAnalysis dollar r) = content r"
  "content (metaDescriptionAnalysis dollar r) = content r"
  "content (headingAnalysis dollar r) = content r"
  "content (openGraphCheck dollar r) = content r"
  "content (imageAltAnalysis dollar r) = content r"
  "content (performanceAnalysis w loadTime r) = content r"
  "content (generalPerformance r) = content r"
  "content (viewportCheck dollar r) = content r"
  "content (generalUx r) = content r"
  "content (titleCheck html r) = content r"
  "content (metaDescriptionCheck htmlLower r) = content r"
  "content (h1Check html r) = content r"
  "content (openGraphTagCheck htmlLower r) = content r"
  "content (imageAltCheck html r) = content r"
  "content (wordpressCheck htmlLower r) = content r"
  "content (viewportTagCheck htmlLower r) = content r"
  "content (contactInfoCheck htmlLower r) = content r"
  by (simp_all add: check_defs Let_def split: option.split)

section \<open>Outcomes\<close>

lemma andThen_simps [simp]:
  "andThen (Done r) k = k r"
  "andThen (Thrown r) k = Thrown r"
  by (simp_all add: andThen_def)

lemma step_simp [simp]: "step check r = Done (check r)"
  by (simp add: step_def)

lemma buckets_of_andThen:
  "buckets_of (andThen x k) = (if is_Done x then buckets_of (k (buckets_of x)) else buckets_of x)"
  by (cases x) simp_all

lemma andThen_is_Done: "is_Done x \<Longrightarrow> andThen x k = k (buckets_of x)"
  by (cases x) simp_all

lemma andThen_untouched:
  "(\<And>r. seo (buckets_of (k r)) = seo r) \<Longrightarrow>
     seo (buckets_of (andThen x k)) = seo (buckets_of x)"
  "(\<And>r. performance (buckets_of (k r)) = performance r) \<Longrightarrow>
     performance (buckets_of (andThen x k)) = performance (buckets_of x)"
  "(\<And>r. wordpress (buckets_of (k r)) = wordpress r) \<Longrightarrow>
     wordpress (buckets_of (andThen x k)) = wordpress (buckets_of x)"
  "(\<And>r. ux (buckets_of (k r)) = ux r) \<Longrightarrow>
     ux (buckets_of (andThen x k)) = ux (buckets_of x)"
  "(\<And>r. accessibility (buckets_of (k r)) = accessibility r) \<Longrightarrow>
     accessibility (buckets_of (andThen x k)) = accessibility (buckets_of x)"
  "(\<And>r. content (buckets_of (k r)) = content r) \<Longrightarrow>
     content (buckets_of (andThen x k)) = content (buckets_of x)"
  by (simp_all add: buckets_of_andThen)

lemma catchBlock_simps [simp]:
  "seo (catchBlock r) = seo r @ [unable_to_analyze]"
  "performance (catchBlock r) = performance r"
  "wordpress (catchBlock r) = wordpress r @ [consider_hosting]"
  "ux (catchBlock r) = ux r"
  "accessibility (catchBlock r) = accessibility r"
  "content (catchBlock r) = content r"
  by (simp_all add: catchBlock_def)

section \<open>The checks that can throw\<close>

text \<open>Whatever \<^verbatim>\<open>html\<close> is, and whether or not it throws, such a check leaves five buckets alone.\<close>

lemmas throwing_defs =
  themeCheck_def jetpackCheck_def contactCheck_def schemaCheck_def
  wordpressRecommendations_def

lemma untouched_by_themeCheck [simp]:
  "seo (buckets_of (themeCheck html r)) = seo r"
  "performance (buckets_of (themeCheck html r)) = performance r"
  "ux (buckets_of (themeCheck html r)) = ux r"
  "accessibility (buckets_of (themeCheck html r)) = accessibility r"
  "content (buckets_of (themeCheck html r)) = content r"
  by (simp_all add: themeCheck_def split: option.split)

lemma untouched_by_jetpackCheck [simp]:
  "seo (buckets_of (jetpackCheck html r)) = seo r"
  "performance (buckets_of (jetpackCheck html r)) = performance r"
  "ux (buckets_of (jetpackCheck html r)) = ux r"
  "accessibility (buckets_of (jetpackCheck html r)) = accessibility r"
  "content (buckets_of (jetpackCheck html r)) = content r"
  by (simp_all add: jetpackCheck_def split: option.split)

lemma untouched_by_wordpressChecks [simp]:
  "seo (buckets_of (wordpressChecks html dollar r)) = seo r"
  "performance (buckets_of (wordpressChecks html dollar r)) = performance r"
  "ux (buckets_of (wordpressChecks html dollar r)) = ux r"
  "accessibility (buckets_of (wordpressChecks html dollar r)) = accessibility r"
  "content (buckets_of (wordpressChecks html dollar r)) = content r"
  by (simp_all add: wordpressChecks_def buckets_of_andThen split: option.split)

lemma untouched_by_wordpressRecommendations [simp]:
  "seo (buckets_of (wordpressRecommendations html dollar r)) = seo r"
  "performance (buckets_of (wordpressRecommendations html dollar r)) = performance r"
  "ux (buckets_of (wordpressRecommendations html dollar r)) = ux r"
  "accessibility (buckets_of (wordpressRecommendations html dollar r)) = accessibility r"
  "content (buckets_of (wordpressRecommendations html dollar r)) = content r"
  by (simp_all add: wordpressRecommendations_def split: option.split)

lemma untouched_by_contactCheck [simp]:
  "seo (buckets_of (contactCheck html r)) = seo r"
  "performance (buckets_of (contactCheck html r)) = performance r"
  "wordpress (buckets_of (contactCheck html r)) = wordpress r"
  "accessibility (buckets_of (contactCheck html r)) = accessibility r"
  "content (buckets_of (contactCheck html r)) = content r"
  by (simp_all add: contactCheck_def split: json.split)

lemma untouched_by_schemaCheck [simp]:
  "performance (buckets_of (schemaCheck html dollar r)) = performance r"
  "wordpress (buckets_of (schemaCheck html dollar r)) = wordpress r"
  "ux (buckets_of (schemaCheck html dollar r)) = ux r"
  "accessibility (buckets_of (schemaCheck html dollar r)) = accessibility r"
  "content (buckets_of (schemaCheck html dollar r)) = content r"
  by (simp_all add: schemaCheck_def split: option.split)

text \<open>On a text none of them throws.\<close>

lemma includes_of_text [simp]: "includes_of (JString s) x = Some (includes_js s x)"
  by (simp add: includes_of_def)

lemma themeMatch_of_text [simp]: "themeMatch_of (JString s) = Some (themeMatch s)"
  by (simp add: themeMatch_of_def)

lemma load_text [simp]: "load w (JString s) = Some (cheerio_load w s)"
  by (simp add: load_def)

lemma isWordPress_text:
  "isWordPress (JString s) dollar =
     Some (includes_js s ''wp-content'' \<or> includes_js s ''wordpress'' \<or>
           (case attr (dollar ''meta[name=\"generator\"]'') ''content'' of
              None \<Rightarrow> False
            | Some generator \<Rightarrow> includes_js generator ''WordPress''))"
  by (simp add: isWordPress_def)

lemma isWordPress_text_cases:
  "isWordPress (JString s) dollar = Some True \<or> isWordPress (JString s) dollar = Some False"
  by (auto simp: isWordPress_text)

lemma is_Done_text [simp]:
  "is_Done (themeCheck (JString s) r)"
  "is_Done (jetpackCheck (JString s) r)"
  "is_Done (wordpressChecks (JString s) dollar r)"
  "is_Done (contactCheck (JString s) r)"
  "is_Done (schemaCheck (JString s) dollar r)"
  "is_Done (wordpressRecommendations (JString s) dollar r)"
  by (simp_all add: throwing_defs wordpressChecks_def isWordPress_text andThen_is_Done
        split: option.split)

lemma wordpress_themeCheck_text:
  "wordpress (buckets_of (themeCheck (JString s) r)) =
     wordpress r @
     (if includes_js s ''wp-content/themes/'' then
        (case themeMatch s of Some theme \<Rightarrow> [wordpress_theme theme] | None \<Rightarrow> [])
      else [])"
  by (simp add: themeCheck_def split: option.split)

lemma wordpress_jetpackCheck_text:
  "wordpress (buckets_of (jetpackCheck (JString s) r)) =
     wordpress r @ (if \<not> includes_js s ''jetpack'' then [install_jetpack] else [])"
  by (simp add: jetpackCheck_def)

lemma wordpress_wordpressChecks_text:
  "wordpress (buckets_of (wordpressChecks (JString s) dollar r)) =
     wordpress r @
     (if isWordPress (JString s) dollar = Some True then
        [wordpress_detected] @
        (if includes_js s ''wp-content/themes/'' then
           (case themeMatch s of Some theme \<Rightarrow> [wordpress_theme theme] | None \<Rightarrow> [])
         else []) @
        (if \<not> includes_js s ''jetpack'' then [install_jetpack] else [])
      else [])"
  using isWordPress_text_cases [of s dollar]
  by (auto simp: wordpressChecks_def andThen_is_Done wordpress_themeCheck_text
        wordpress_jetpackCheck_text)

lemma wordpress_wordpressRecommendations_text:
  "wordpress (buckets_of (wordpressRecommendations (JString s) dollar r)) =
     wordpress r @ (if isWordPress (JString s) dollar = Some True then [optimize_images] else [])"
  using isWordPress_text_cases [of s dollar]
  by (auto simp: wordpressRecommendations_def)

lemma ux_contactCheck_text:
  "ux (buckets_of (contactCheck (JString s) r)) =
     ux r @ (if noContactInfo s then [no_contact] else [])"
  by (simp add: contactCheck_def)

section \<open>The buckets of a run\<close>

lemma analysis_text:
  "analysis w url (JString s) r =
     Done (generalUx (generalPerformance
       (buckets_of (wordpressRecommendations (JString s) (cheerio_load w s)
       (buckets_of (schemaCheck (JString s) (cheerio_load w s)
       (viewportCheck (cheerio_load w s)
       (buckets_of (contactCheck (JString s)
       (contentAnalysis (cheerio_load w s)
       (openGraphCheck (cheerio_load w s)
       (performanceAnalysis w (now_after w - now_before w)
       (buckets_of (wordpressChecks (JString s) (cheerio_load w s)
       (headingAnalysis (cheerio_load w s)
       (imageAltAnalysis (cheerio_load w s)
       (metaDescriptionAnalysis (cheerio_load w s)
       (titleAnalysis (cheerio_load w s)
       (urlLengthCheck url (httpsCheck url r))))))))))))))))))))"
  by (simp add: analysis_def Let_def andThen_is_Done)

lemma wordpress_analysis:
  "wordpress (buckets_of (analysis w url (JString s) r)) =
     wordpress r @
     (if isWordPress (JString s) (cheerio_load w s) = Some True then
        [wordpress_detected] @
        (if includes_js s ''wp-content/themes/'' then
           (case themeMatch s of Some theme \<Rightarrow> [wordpress_theme theme] | None \<Rightarrow> [])
         else []) @
        (if \<not> includes_js s ''jetpack'' then [install_jetpack] else []) @
        [optimize_images]
      else [])"
  by (simp add: analysis_text wordpress_wordpressChecks_text
        wordpress_wordpressRecommendations_text)

lemma performance_analysis:
  "performance (buckets_of (analysis w url (JString s) r)) =
     (if performance r = [] \<and> \<not> now_after w - now_before w > 3000 then [generic_performance]
      else performance r @
           (if now_after w - now_before w > 3000
            then [slow_load (toFixed1 w (now_after w - now_before w))] else []))"
  by (simp add: analysis_text generalPerformance_def performanceAnalysis_def)

lemma ux_analysis:
  "ux (buckets_of (analysis w url (JString s) r)) =
     (if ux r = [] \<and> \<not> noContactInfo s \<and> \<not> viewportMissing (cheerio_load w s)
      then [generic_ux]
      else ux r @ (if noContactInfo s then [no_contact] else []) @
           (if viewportMissing (cheerio_load w s) then [missing_viewport] else []))"
  by (simp add: analysis_text generalUx_def ux_contactCheck_text viewportCheck_def)

text \<open>
  The image check and the title check come before anything that can throw, and nothing
  after them touches what they wrote: their result stands for every kind of data.
\<close>

lemma accessibility_analysis:
  "load w html = Some dollar \<Longrightarrow>
     accessibility (buckets_of (analysis w url html r)) =
       accessibility r @
       (if imagesWithoutAlt (dollar ''img'') > 0
        then [images_without_alt (imagesWithoutAlt (dollar ''img''))] else [])"
  by (simp add: analysis_def Let_def andThen_untouched imageAltAnalysis_def)

lemma analyzeWebsite_arrived:
  "axios_get w url = Inr html \<Longrightarrow>
     analyzeWebsite w url =
       (case analysis w url html no_results of Done r \<Rightarrow> r | Thrown r \<Rightarrow> catchBlock r)"
  by (simp add: analyzeWebsite_def)

lemma analyzeWebsite_text:
  "axios_get w url = Inr (JString s) \<Longrightarrow>
     analyzeWebsite w url = buckets_of (analysis w url (JString s) no_results)"
  by (simp add: analyzeWebsite_def analysis_text)

lemma analyzeWebsite_failed:
  "axios_get w url = Inl message \<Longrightarrow> analyzeWebsite w url = catchBlock no_results"
  by (simp add: analyzeWebsite_def)

lemma accessibility_after_catch:
  "accessibility (case x of Done r \<Rightarrow> r | Thrown r \<Rightarrow> catchBlock r) = accessibility (buckets_of x)"
  by (cases x) simp_all

lemma accessibility_analyzeWebsite:
  "axios_get w url = Inr html \<Longrightarrow> load w html = Some dollar \<Longrightarrow>
     accessibility (analyzeWebsite w url) =
       (if imagesWithoutAlt (dollar ''img'') > 0
        then [images_without_alt (imagesWithoutAlt (dollar ''img''))] else [])"
  by (simp add: analyzeWebsite_arrived accessibility_after_catch accessibility_analysis)

lemma compileResults_items:
  "g \<in> set (compileResults b) \<Longrightarrow> items g \<noteq> []"
  by (auto simp: compileResults_def split: if_splits)

lemma generic_performance_not_slow [simp]: "generic_performance \<noteq> slow_load secs"
  by (simp add: generic_performance_def slow_load_def)

lemma generic_ux_distinct [simp]:
  "generic_ux \<noteq> no_contact" "generic_ux \<noteq> missing_viewport"
  by (simp_all add: generic_ux_def no_contact_def missing_viewport_def)

lemma fetchAndAnalyze_failed:
  "fetchFailed w url \<Longrightarrow> fetchAndAnalyze w url = fallbackResults"
  by (auto simp: fetchFailed_def fetchAndAnalyze_def isl_def split: sum.splits if_splits)

lemma handler_simplified_post:
  "url \<noteq> [] \<Longrightarrow>
     handler_simplified w (post url)
       = \<lparr>status_code = 200,
          json = Result (ensureProtocol url) (fetchAndAnalyze w (ensureProtocol url))\<rparr>"
  by (simp add: handler_simplified_def post_def Let_def)

lemma handler_post:
  "url \<noteq> [] \<Longrightarrow>
     handler w (post url)
       = \<lparr>status_code = 200,
          json = Result (ensureProtocol url)
                   (compileResults (analyzeWebsite w (ensureProtocol url)))\<rparr>"
  by (simp add: handler_def post_def Let_def)

lemma compileResults_failed:
  "isl (axios_get w url) \<Longrightarrow>
     compileResults (analyzeWebsite w url)
       = [\<lparr>category = ''SEO Optimization'', icon = Magnifier, priority = ''high'',
            items = [unable_to_analyze]\<rparr>,
          \<lparr>category = ''WordPress.com Specific'', icon = HighVoltage, priority = ''high'',
            items = [consider_hosting]\<rparr>]"
  by (auto simp: isl_def analyzeWebsite_failed compileResults_def)

lemma imagesWithoutAlt_fold:
  "fold (\<lambda>img n. if falsy (attr [img] ''alt'') then n + 1 else n) imgs k
     = k + length (filter altAbsentOrEmpty imgs)"
  by (induction imgs arbitrary: k)
     (auto simp: altAbsentOrEmpty_def falsy_def attr_def split: option.splits)

lemma imagesWithoutAlt_count:
  "imagesWithoutAlt imgs = length (filter altAbsentOrEmpty imgs)"
  by (simp add: imagesWithoutAlt_def imagesWithoutAlt_fold)




lemma compileResults_categories:
  "map category (compileResults b) =
     (if seo b = [] then [] else [''SEO Optimization'']) @
     (if wordpress b = [] then [] else [''WordPress.com Specific'']) @
     (if performance b = [] then [] else [''Performance'']) @
     (if ux b = [] then [] else [''User Experience'']) @
     (if content b = [] then [] else [''Content & Structure'']) @
     (if accessibility b = [] then [] else [''Accessibility''])"
  by (simp add: compileResults_def)

lemma no_group_of_empty_bucket:
  "accessibility b = [] \<Longrightarrow> ''Accessibility'' \<notin> set (map category (compileResults b))"
  "wordpress b = [] \<Longrightarrow> ''WordPress.com Specific'' \<notin> set (map category (compileResults b))"
  by (simp_all add: compileResults_categories)

lemma issues_steps:
  "issuesHTML w html url loadTime =
     generalUx (generalPerformance (contactInfoCheck (toLowerCase html)
       (viewportTagCheck (toLowerCase html) (openGraphTagCheck (toLowerCase html)
       (performanceAnalysis w loadTime (wordpressCheck (toLowerCase html)
       (h1Check html (imageAltCheck html (metaDescriptionCheck (toLowerCase html)
       (titleCheck html (httpsCheck url no_results)))))))))))"
  by (simp add: issuesHTML_def Let_def)

lemma wordpress_wordpressCheck_undetected:
  "\<not> isWordPressLower htmlLower \<Longrightarrow>
     wordpress (wordpressCheck htmlLower r) = wordpress r @ [consider_migrating]"
  by (simp add: wordpressCheck_def)


lemma trim_Nil [simp]: "trim [] = []"
  by (simp add: trim_def)

lemma safeText_trim: "safeText s = trim s"
  by (simp add: safeText_def)

lemma is_title_advisory_simps [simp]:
  "is_title_advisory missing_title"
  "is_title_advisory title_short"
  "is_title_advisory (title_long n)"
  by (simp_all add: is_title_advisory_def title_advisories_def)

lemma title_advisory_sources:
  "is_title_advisory a \<Longrightarrow>
     source a \<in> {''Google SEO guidelines'', ''SEO title optimization'', ''Google SERP optimization''}"
  by (auto simp: is_title_advisory_def title_advisories_def missing_title_def title_short_def
        title_long_def)

lemma not_title_advisory [simp]:
  "\<not> is_title_advisory use_https"
  "\<not> is_title_advisory url_long"
  "\<not> is_title_advisory missing_description"
  "\<not> is_title_advisory (description_long n)"
  "\<not> is_title_advisory no_h1"
  "\<not> is_title_advisory (multiple_h1 n)"
  "\<not> is_title_advisory missing_open_graph"
  "\<not> is_title_advisory no_structured_data"
  "\<not> is_title_advisory unable_to_analyze"
  using title_advisory_sources [of use_https] title_advisory_sources [of url_long]
    title_advisory_sources [of missing_description]
    title_advisory_sources [of "description_long n"] title_advisory_sources [of no_h1]
    title_advisory_sources [of "multiple_h1 n"] title_advisory_sources [of missing_open_graph]
    title_advisory_sources [of no_structured_data]
    title_advisory_sources [of unable_to_analyze]
  by (auto simp: unable_to_analyze_def use_https_def url_long_def missing_description_def description_long_def
        no_h1_def multiple_h1_def missing_open_graph_def no_structured_data_def)

lemma title_filter_seo_checks [simp]:
  "filter is_title_advisory (seo (httpsCheck url r)) = filter is_title_advisory (seo r)"
  "filter is_title_advisory (seo (urlLengthCheck url r)) = filter is_title_advisory (seo r)"
  "filter is_title_advisory (seo (metaDescriptionAnalysis dollar r))
     = filter is_title_advisory (seo r)"
  "filter is_title_advisory (seo (headingAnalysis dollar r)) = filter is_title_advisory (seo r)"
  "filter is_title_advisory (seo (openGraphCheck dollar r)) = filter is_title_advisory (seo r)"
  "filter is_title_advisory (seo (buckets_of (schemaCheck html dollar r)))
     = filter is_title_advisory (seo r)"
  by (simp_all add: httpsCheck_def urlLengthCheck_def metaDescriptionAnalysis_def
        headingAnalysis_def openGraphCheck_def schemaCheck_def Let_def split: option.split)

lemma title_filter_titleAnalysis:
  "filter is_title_advisory (seo (titleAnalysis dollar r)) =
     filter is_title_advisory (seo r) @
     (if trim (text_js (dollar ''title'')) = [] then [missing_title]
      else if length (trim (text_js (dollar ''title''))) > 60
        then [title_long (length (trim (text_js (dollar ''title''))))]
      else if length (trim (text_js (dollar ''title''))) < 30 then [title_short]
      else [])"
  by (simp add: titleAnalysis_def safeText_trim Let_def)

lemma title_filter_andThen:
  "(\<And>r. filter is_title_advisory (seo (buckets_of (k r))) = filter is_title_advisory (seo r))
     \<Longrightarrow> filter is_title_advisory (seo (buckets_of (andThen x k)))
           = filter is_title_advisory (seo (buckets_of x))"
  by (simp add: buckets_of_andThen)

lemma title_filter_analysis:
  "load w html = Some dollar \<Longrightarrow>
     filter is_title_advisory (seo (buckets_of (analysis w url html no_results))) =
       (if trim (text_js (dollar ''title'')) = [] then [missing_title]
        else if length (trim (text_js (dollar ''title''))) > 60
          then [title_long (length (trim (text_js (dollar ''title''))))]
        else if length (trim (text_js (dollar ''title''))) < 30 then [title_short]
        else [])"
  by (simp add: analysis_def Let_def title_filter_andThen title_filter_titleAnalysis)

lemma title_filter_after_catch:
  "filter is_title_advisory (seo (case x of Done r \<Rightarrow> r | Thrown r \<Rightarrow> catchBlock r))
     = filter is_title_advisory (seo (buckets_of x))"
  by (cases x) simp_all

lemma title_filter_analyzeWebsite:
  "axios_get w url = Inr html \<Longrightarrow> load w html = Some dollar \<Longrightarrow>
     filter is_title_advisory (seo (analyzeWebsite w url)) =
       (if trim (text_js (dollar ''title'')) = [] then [missing_title]
        else if length (trim (text_js (dollar ''title''))) > 60
          then [title_long (length (trim (text_js (dollar ''title''))))]
        else if length (trim (text_js (dollar ''title''))) < 30 then [title_short]
        else [])"
  by (simp add: analyzeWebsite_arrived title_filter_after_catch title_filter_analysis)

lemma text_js_Nil [simp]: "text_js [] = []"
  by (simp add: text_js_def)

lemma toString_61: "toString 61 = ''61''"
  by code_simp

section \<open>A page that cannot be fetched\<close>

text \<open>
  C1 as it is worded asks for the two groups "Site Access" and "WordPress.com
  Recommendations" whenever the fetch fails. The handler with the DOM library answers
  a failed fetch with the groups "SEO Optimization" and "WordPress.com Specific"
  instead: here in the world where every request times out.
\<close>

theorem fetch_failure_groups_counterexample:
  "isl (axios_get offline ''https://example.com'') \<and>
   map category (reply_improvements (json (handler offline (post ''https://example.com''))))
     = [''SEO Optimization'', ''WordPress.com Specific''] \<and>
   map category (reply_improvements (json (handler offline (post ''https://example.com''))))
     \<noteq> [''Site Access'', ''WordPress.com Recommendations'']"
proof -
  have e: "ensureProtocol ''https://example.com'' = ''https://example.com''"
    by (simp add: ensureProtocol_def startsWith_def)
  have g: "isl (axios_get offline ''https://example.com'')"
    by (simp add: offline_def)
  show ?thesis
    using g by (simp add: handler_post e compileResults_failed)
qed

text \<open>
  C1, amended. A POST with a non-empty URL whose fetch fails is answered with status
  200 by both handlers. The handler without the DOM library sends exactly the two
  groups "Site Access" and "WordPress.com Recommendations", both of priority high, and
  no group of the normal analysis. The handler with the DOM library sends exactly two
  groups as well, both of priority high, but they are "SEO Optimization" and
  "WordPress.com Specific", each with its one fallback advisory.
\<close>

theorem fetch_failure_fallback:
  assumes "url \<noteq> []"
  shows "(fetchFailed w (ensureProtocol url) \<longrightarrow>
            handler_simplified w (post url)
              = \<lparr>status_code = 200, json = Result (ensureProtocol url) fallbackResults\<rparr>) \<and>
         map category fallbackResults = [''Site Access'', ''WordPress.com Recommendations''] \<and>
         map priority fallbackResults = [''high'', ''high''] \<and>
         (isl (axios_get w (ensureProtocol url)) \<longrightarrow>
            handler w (post url)
              = \<lparr>status_code = 200,
                 json = Result (ensureProtocol url)
                   [\<lparr>category = ''SEO Optimization'', icon = Magnifier, priority = ''high'',
                      items = [unable_to_analyze]\<rparr>,
                    \<lparr>category = ''WordPress.com Specific'', icon = HighVoltage,
                      priority = ''high'', items = [consider_hosting]\<rparr>]\<rparr>)"
  using assms
  by (simp add: handler_simplified_post handler_post fetchAndAnalyze_failed
        compileResults_failed fallbackResults_def)

theorem fetch_failure_fallback_witness:
  "''example.com'' \<noteq> [] \<and>
   fetchFailed offline (ensureProtocol ''example.com'') \<and>
   isl (axios_get offline (ensureProtocol ''example.com'')) \<and>
   handler_simplified offline (post ''example.com'')
     = \<lparr>status_code = 200, json = Result ''https://example.com'' fallbackResults\<rparr> \<and>
   handler offline (post ''example.com'')
     = \<lparr>status_code = 200,
        json = Result ''https://example.com''
          [\<lparr>category = ''SEO Optimization'', icon = Magnifier, priority = ''high'',
             items = [unable_to_analyze]\<rparr>,
           \<lparr>category = ''WordPress.com Specific'', icon = HighVoltage,
             priority = ''high'', items = [consider_hosting]\<rparr>]\<rparr>"
proof -
  have n: "''example.com'' \<noteq> []" by simp
  have e: "ensureProtocol ''example.com'' = ''https://example.com''"
    by (simp add: ensureProtocol_def startsWith_def)
  have f: "fetchFailed offline (ensureProtocol ''example.com'')"
    by (simp add: fetchFailed_def offline_def)
  have g: "isl (axios_get offline (ensureProtocol ''example.com''))"
    by (simp add: offline_def)
  show ?thesis
    using fetch_failure_fallback [OF n, of offline] e f g by simp
qed

section \<open>The WordPress bucket of a site that is not detected\<close>

text \<open>
  C2 as it is worded puts one advisory, the recommendation to migrate, into the
  wordpress bucket of every page that is not detected as WordPress. The analysis with
  the DOM library has no such advisory: for a page without \<^verbatim>\<open>wp-content\<close>, without
  \<^verbatim>\<open>wordpress\<close> and without a generator meta its wordpress bucket is empty.
\<close>

theorem no_migration_advisory_counterexample:
  "\<not> includes_js blank_title_html ''wp-content'' \<and>
   \<not> includes_js blank_title_html ''wordpress'' \<and>
   attr (cheerio_load (serving blank_title_html blank_title_dollar) blank_title_html
           ''meta[name=\"generator\"]'') ''content'' = None \<and>
   wordpress (analyzeWebsite (serving blank_title_html blank_title_dollar)
                ''https://example.com'') = []"
proof -
  let ?w = "serving blank_title_html blank_title_dollar"
  have a: "axios_get ?w ''https://example.com'' = Inr (JString blank_title_html)"
    by (simp add: serving_def)
  have c: "\<not> includes_js blank_title_html ''wp-content''"
    by code_simp
  have d: "\<not> includes_js blank_title_html ''wordpress''"
    by code_simp
  have g: "attr (cheerio_load ?w blank_title_html ''meta[name=\"generator\"]'') ''content'' = None"
    by (simp add: serving_def blank_title_dollar_def attr_def)
  have n: "isWordPress (JString blank_title_html) (cheerio_load ?w blank_title_html) = Some False"
    using c d g by (simp add: isWordPress_text)
  have e: "wordpress (analyzeWebsite ?w ''https://example.com'') = []"
    using n by (simp add: analyzeWebsite_text [OF a] wordpress_analysis)
  from c d g e show ?thesis by blast
qed

text \<open>
  C2, amended. In the analysis with the DOM library a page that arrives as text and is
  not detected as WordPress has an empty wordpress bucket, and no "WordPress.com
  Specific" group is sent. In the variant without the DOM library a page whose
  lower-cased text contains none of \<^verbatim>\<open>wp-content\<close>, \<^verbatim>\<open>wordpress\<close> and \<^verbatim>\<open>wp-includes\<close> has
  exactly one advisory in the wordpress list, the recommendation to migrate, and none
  of the advisories of a detected site.
\<close>

theorem wordpress_bucket_without_detection:
  "(axios_get w url = Inr (JString html) \<and>
    isWordPress (JString html) (cheerio_load w html) = Some False \<longrightarrow>
      wordpress (analyzeWebsite w url) = [] \<and>
      ''WordPress.com Specific''
        \<notin> set (map category (compileResults (analyzeWebsite w url)))) \<and>
   (\<not> isWordPressLower (toLowerCase html2) \<longrightarrow>
      wordpress (issuesHTML w2 html2 url2 loadTime) = [consider_migrating])"
proof -
  have dom: "wordpress (analyzeWebsite w url) = []"
    if "axios_get w url = Inr (JString html)"
      and "isWordPress (JString html) (cheerio_load w html) = Some False"
    using that by (simp add: analyzeWebsite_text wordpress_analysis)
  have grp: "wordpress (analyzeWebsite w url) = [] \<longrightarrow>
               ''WordPress.com Specific''
                 \<notin> set (map category (compileResults (analyzeWebsite w url)))"
    using no_group_of_empty_bucket(2) by blast
  have re: "wordpress (issuesHTML w2 html2 url2 loadTime) = [consider_migrating]"
    if "\<not> isWordPressLower (toLowerCase html2)"
    using that by (simp add: issues_steps wordpress_wordpressCheck_undetected)
  from dom grp re show ?thesis by blast
qed

theorem wordpress_bucket_without_detection_witness:
  "axios_get (serving blank_title_html blank_title_dollar) ''https://example.com''
     = Inr (JString blank_title_html) \<and>
   isWordPress (JString blank_title_html) blank_title_dollar = Some False \<and>
   wordpress (analyzeWebsite (serving blank_title_html blank_title_dollar)
                ''https://example.com'') = [] \<and>
   \<not> isWordPressLower (toLowerCase blank_title_html) \<and>
   wordpress (issuesHTML (serving blank_title_html blank_title_dollar) blank_title_html
                ''https://example.com'' 4200) = [consider_migrating]"
proof -
  let ?w = "serving blank_title_html blank_title_dollar"
  have a: "axios_get ?w ''https://example.com'' = Inr (JString blank_title_html)"
    by (simp add: serving_def)
  have l: "cheerio_load ?w blank_title_html = blank_title_dollar"
    by (simp add: serving_def)
  have n: "isWordPress (JString blank_title_html) blank_title_dollar = Some False"
    by code_simp
  have m: "\<not> isWordPressLower (toLowerCase blank_title_html)"
    by code_simp
  note th = wordpress_bucket_without_detection
              [of ?w "''https://example.com''" blank_title_html blank_title_html
                  ?w "''https://example.com''" 4200]
  have c1: "wordpress (analyzeWebsite ?w ''https://example.com'') = []"
    using th a n l by simp
  have c2: "wordpress (issuesHTML ?w blank_title_html ''https://example.com'' 4200)
              = [consider_migrating]"
    using th m by blast
  from a n c1 m c2 show ?thesis by blast
qed

section \<open>The title advisories\<close>

text \<open>
  C3 as it is worded gives the "too short" advisory to every title that is present and
  shorter than 30 characters after trimming. A title element whose text is blank is
  present and has the trimmed length 0, and the analysis reports it as a missing title,
  not as a short one.
\<close>

theorem blank_title_counterexample:
  "cheerio_load (serving blank_title_html blank_title_dollar) blank_title_html ''title'' \<noteq> [] \<and>
   length (trim (text_js (cheerio_load (serving blank_title_html blank_title_dollar)
                            blank_title_html ''title''))) < 30 \<and>
   filter is_title_advisory
     (seo (analyzeWebsite (serving blank_title_html blank_title_dollar) ''https://example.com''))
     = [missing_title] \<and>
   missing_title \<noteq> title_short"
proof -
  let ?w = "serving blank_title_html blank_title_dollar"
  have a: "axios_get ?w ''https://example.com'' = Inr (JString blank_title_html)"
    by (simp add: serving_def)
  have l: "load ?w (JString blank_title_html) = Some (cheerio_load ?w blank_title_html)"
    by simp
  have e: "cheerio_load ?w blank_title_html ''title'' \<noteq> []"
    by (simp add: serving_def blank_title_dollar_def)
  have t: "trim (text_js (cheerio_load ?w blank_title_html ''title'')) = []"
    by (simp add: serving_def blank_title_dollar_def text_js_def trim_def isSpace_def)
  have f: "filter is_title_advisory (seo (analyzeWebsite ?w ''https://example.com''))
             = [missing_title]"
    by (simp add: title_filter_analyzeWebsite [OF a l] t)
  have d: "missing_title \<noteq> title_short"
    by (simp add: missing_title_def title_short_def)
  from e t f d show ?thesis by simp
qed

text \<open>
  C3, amended. When the page arrives, the SEO bucket holds at most one title advisory,
  decided by the trimmed text of the title elements: "missing title" when it is empty,
  which is the case when no title element is found and also when the title is blank;
  otherwise "too long", with the length interpolated, when the length is above 60;
  otherwise "too short" when the length is below 30, that is from 1 to 29; and none
  from 30 to 60. A length of 60 gives no advisory and a length of 61 gives "too long"
  with the text "Page title is 61 characters". This holds for whatever arrives and the
  DOM library loads as the document \<open>dollar\<close>; a page that is the text \<open>s\<close> is loaded as
  \<open>cheerio_load w s\<close>.
\<close>

theorem title_advisory:
  assumes "axios_get w url = Inr html" and "load w html = Some dollar"
  shows "filter is_title_advisory (seo (analyzeWebsite w url)) =
           (if trim (text_js (dollar ''title'')) = [] then [missing_title]
            else if length (trim (text_js (dollar ''title''))) > 60
              then [title_long (length (trim (text_js (dollar ''title''))))]
            else if length (trim (text_js (dollar ''title''))) < 30
              then [title_short]
            else []) \<and>
         (dollar ''title'' = [] \<longrightarrow>
            filter is_title_advisory (seo (analyzeWebsite w url)) = [missing_title]) \<and>
         text (title_long 61)
           = ''Page title is 61 characters - should be 50-60 for optimal display''"
  using assms
  by (simp add: title_filter_analyzeWebsite title_long_def toString_61)

theorem title_advisory_witness:
  "cheerio_load (serving theme_html theme_dollar) theme_html ''title'' = [] \<and>
   filter is_title_advisory
     (seo (analyzeWebsite (serving theme_html theme_dollar) ''https://example.com''))
     = [missing_title] \<and>
   length (trim (text_js (cheerio_load (serving long_title_html long_title_dollar)
                            long_title_html ''title''))) = 61 \<and>
   filter is_title_advisory
     (seo (analyzeWebsite (serving long_title_html long_title_dollar) ''https://example.com''))
     = [title_long 61]"
proof -
  let ?w1 = "serving theme_html theme_dollar"
  let ?w2 = "serving long_title_html long_title_dollar"
  have a1: "axios_get ?w1 ''https://example.com'' = Inr (JString theme_html)"
    by (simp add: serving_def)
  have l1: "load ?w1 (JString theme_html) = Some (cheerio_load ?w1 theme_html)"
    by simp
  have n1: "cheerio_load ?w1 theme_html ''title'' = []"
    by (simp add: serving_def theme_dollar_def)
  have a2: "axios_get ?w2 ''https://example.com'' = Inr (JString long_title_html)"
    by (simp add: serving_def)
  have l2: "load ?w2 (JString long_title_html) = Some (cheerio_load ?w2 long_title_html)"
    by simp
  have t2: "trim (text_js (cheerio_load ?w2 long_title_html ''title'')) = replicate 61 (CHR ''x'')"
    by (simp add: serving_def long_title_dollar_def text_js_def) code_simp
  have len2: "length (trim (text_js (cheerio_load ?w2 long_title_html ''title''))) = 61"
    by (simp only: t2 length_replicate)
  have c1: "filter is_title_advisory (seo (analyzeWebsite ?w1 ''https://example.com''))
              = [missing_title]"
    using title_advisory [OF a1 l1] n1 by blast
  have c2: "filter is_title_advisory (seo (analyzeWebsite ?w2 ''https://example.com''))
              = [title_long 61]"
    using title_advisory [OF a2 l2] by (simp add: t2)
  from n1 c1 len2 c2 show ?thesis by blast
qed

section \<open>The WordPress bucket of a detected site\<close>

text \<open>
  C4. When the page arrives as the text of an HTML document that contains
  \<^verbatim>\<open>wp-content\<close> but not \<^verbatim>\<open>jetpack\<close>, the wordpress bucket starts with the "WordPress
  site detected" advisory, holds the "install Jetpack" advisory after it, and ends with
  the "optimize images with the built-in compression" advisory; between the first two
  stands at most the advisory that names the theme.
\<close>

theorem wordpress_detected_before_jetpack:
  assumes "axios_get w url = Inr (JString html)"
    and "includes_js html ''wp-content''"
    and "\<not> includes_js html ''jetpack''"
  shows "\<exists>theme.
           wordpress (analyzeWebsite w url)
             = [wordpress_detected] @ theme @ [install_jetpack, optimize_images] \<and>
           (theme = [] \<or> (\<exists>name. theme = [wordpress_theme name]))"
proof -
  have wp: "isWordPress (JString html) (cheerio_load w html) = Some True"
    using assms(2) by (simp add: isWordPress_text)
  show ?thesis
    using assms(1,3) wp
    by (auto simp: analyzeWebsite_text wordpress_analysis split: option.split)
qed

theorem wordpress_detected_before_jetpack_witness:
  "axios_get (serving theme_html theme_dollar) ''https://example.com'' = Inr (JString theme_html) \<and>
   includes_js theme_html ''wp-content'' \<and> \<not> includes_js theme_html ''jetpack'' \<and>
   (\<exists>theme.
      wordpress (analyzeWebsite (serving theme_html theme_dollar) ''https://example.com'')
        = [wordpress_detected] @ theme @ [install_jetpack, optimize_images] \<and>
      (theme = [] \<or> (\<exists>name. theme = [wordpress_theme name])))"
proof -
  have a: "axios_get (serving theme_html theme_dollar) ''https://example.com''
             = Inr (JString theme_html)"
    by (simp add: serving_def)
  have b: "includes_js theme_html ''wp-content''"
    by code_simp
  have c: "\<not> includes_js theme_html ''jetpack''"
    by code_simp
  show ?thesis
    using wordpress_detected_before_jetpack [OF a b c] a b c by simp
qed

section \<open>The generic advisories\<close>

text \<open>
  C5 as it is worded speaks of every run. In a run whose request is refused after 50
  milliseconds no check fires, and yet the performance and the ux bucket stay empty:
  the generic advisories are added at the end of the \<^verbatim>\<open>try\<close> block, which such a run
  leaves at its first statement. The same happens when the body is JSON: the run
  leaves the block at the first call of \<^verbatim>\<open>html.includes\<close>.
\<close>

theorem no_generic_advisory_counterexample:
  "isl (axios_get refused ''https://example.com'') \<and>
   \<not> now_after refused - now_before refused > 3000 \<and>
   generic_performance \<notin> set (performance (analyzeWebsite refused ''https://example.com'')) \<and>
   generic_ux \<notin> set (ux (analyzeWebsite refused ''https://example.com'')) \<and>
   axios_get serving_json ''https://example.com'' = Inr (JObject [(''a'', JNumber 1)]) \<and>
   \<not> now_after serving_json - now_before serving_json > 3000 \<and>
   generic_performance
     \<notin> set (performance (analyzeWebsite serving_json ''https://example.com'')) \<and>
   generic_ux \<notin> set (ux (analyzeWebsite serving_json ''https://example.com''))"
proof -
  have a: "axios_get refused ''https://example.com'' = Inl ''connect ECONNREFUSED 127.0.0.1:443''"
    by (simp add: refused_def)
  have t: "\<not> now_after refused - now_before refused > 3000"
    by (simp add: refused_def)
  have p: "performance (analyzeWebsite refused ''https://example.com'') = []"
    by (simp add: analyzeWebsite_failed [OF a])
  have u: "ux (analyzeWebsite refused ''https://example.com'') = []"
    by (simp add: analyzeWebsite_failed [OF a])
  have b: "axios_get serving_json ''https://example.com'' = Inr (JObject [(''a'', JNumber 1)])"
    by (simp add: serving_json_def)
  have s: "\<not> now_after serving_json - now_before serving_json > 3000"
    by (simp add: serving_json_def)
  have run: "analysis serving_json ''https://example.com'' (JObject [(''a'', JNumber 1)]) no_results
               = Thrown (headingAnalysis (\<lambda>sel. []) (imageAltAnalysis (\<lambda>sel. [])
                   (metaDescriptionAnalysis (\<lambda>sel. []) (titleAnalysis (\<lambda>sel. [])
                   (urlLengthCheck ''https://example.com''
                   (httpsCheck ''https://example.com'' no_results))))))"
    by (simp add: analysis_def Let_def load_def serving_json_def wordpressChecks_def
          isWordPress_def includes_of_def)
  have q: "performance (analyzeWebsite serving_json ''https://example.com'') = []"
    by (simp add: analyzeWebsite_arrived [OF b] run)
  have v: "ux (analyzeWebsite serving_json ''https://example.com'') = []"
    by (simp add: analyzeWebsite_arrived [OF b] run)
  from a t p u b s q v show ?thesis by simp
qed

text \<open>
  C5, amended. In every run in which the page arrives as text, the generic performance
  advisory is in the performance bucket exactly when the load-time check (load time
  above 3000 ms) did not fire, and the generic UX advisory is in the ux bucket exactly
  when neither the viewport check nor the contact check fired; neither bucket is empty
  then. In a run whose request fails both buckets are empty. In every run, no output
  group of the presenter has an empty item list.
\<close>

theorem generic_advisory_iff_no_specific_check:
  "(axios_get w url = Inr (JString html) \<longrightarrow>
      (generic_performance \<in> set (performance (analyzeWebsite w url))
         \<longleftrightarrow> \<not> now_after w - now_before w > 3000) \<and>
      (generic_ux \<in> set (ux (analyzeWebsite w url))
         \<longleftrightarrow> \<not> viewportMissing (cheerio_load w html) \<and> \<not> noContactInfo html) \<and>
      performance (analyzeWebsite w url) \<noteq> [] \<and>
      ux (analyzeWebsite w url) \<noteq> []) \<and>
   (isl (axios_get w url) \<longrightarrow>
      performance (analyzeWebsite w url) = [] \<and> ux (analyzeWebsite w url) = []) \<and>
   (\<forall>g \<in> set (compileResults (analyzeWebsite w url)). items g \<noteq> [])"
proof -
  have p: "generic_performance \<in> set (performance (analyzeWebsite w url))
             \<longleftrightarrow> \<not> now_after w - now_before w > 3000"
    if "axios_get w url = Inr (JString html)"
    using that by (simp add: analyzeWebsite_text performance_analysis)
  have u: "generic_ux \<in> set (ux (analyzeWebsite w url))
             \<longleftrightarrow> \<not> viewportMissing (cheerio_load w html) \<and> \<not> noContactInfo html"
    if "axios_get w url = Inr (JString html)"
    using that by (auto simp: analyzeWebsite_text ux_analysis)
  have pn: "performance (analyzeWebsite w url) \<noteq> []"
    if "axios_get w url = Inr (JString html)"
    using that by (simp add: analyzeWebsite_text performance_analysis)
  have un: "ux (analyzeWebsite w url) \<noteq> []"
    if "axios_get w url = Inr (JString html)"
    using that by (simp add: analyzeWebsite_text ux_analysis)
  have f: "performance (analyzeWebsite w url) = [] \<and> ux (analyzeWebsite w url) = []"
    if "isl (axios_get w url)"
    using that by (auto simp: isl_def analyzeWebsite_failed)
  have g: "\<forall>g \<in> set (compileResults (analyzeWebsite w url)). items g \<noteq> []"
    by (simp add: compileResults_items)
  from p u pn un f g show ?thesis by blast
qed

theorem generic_advisory_iff_no_specific_check_witness:
  "axios_get (serving theme_html theme_dollar) ''https://example.com'' = Inr (JString theme_html) \<and>
   now_after (serving theme_html theme_dollar) - now_before (serving theme_html theme_dollar) > 3000 \<and>
   generic_performance
     \<notin> set (performance (analyzeWebsite (serving theme_html theme_dollar) ''https://example.com'')) \<and>
   viewportMissing theme_dollar \<and>
   generic_ux \<notin> set (ux (analyzeWebsite (serving theme_html theme_dollar) ''https://example.com'')) \<and>
   performance (analyzeWebsite (serving theme_html theme_dollar) ''https://example.com'') \<noteq> [] \<and>
   ux (analyzeWebsite (serving theme_html theme_dollar) ''https://example.com'') \<noteq> [] \<and>
   isl (axios_get offline ''https://example.com'') \<and>
   performance (analyzeWebsite offline ''https://example.com'') = [] \<and>
   ux (analyzeWebsite offline ''https://example.com'') = [] \<and>
   compileResults (analyzeWebsite (serving theme_html theme_dollar) ''https://example.com'') \<noteq> [] \<and>
   [] \<notin> set (map items (compileResults
                 (analyzeWebsite (serving theme_html theme_dollar) ''https://example.com'')))"
proof -
  let ?w = "serving theme_html theme_dollar"
  note th = generic_advisory_iff_no_specific_check [of ?w "''https://example.com''" theme_html]
  note off = generic_advisory_iff_no_specific_check [of offline "''https://example.com''" theme_html]
  have a: "axios_get ?w ''https://example.com'' = Inr (JString theme_html)"
    by (simp add: serving_def)
  have t: "now_after ?w - now_before ?w > 3000"
    by (simp add: serving_def)
  have l: "cheerio_load ?w theme_html = theme_dollar"
    by (simp add: serving_def)
  have v: "viewportMissing theme_dollar"
    by (simp add: viewportMissing_def theme_dollar_def attr_def falsy_def)
  have i: "isl (axios_get offline ''https://example.com'')"
    by (simp add: offline_def)
  have c1: "generic_performance \<notin> set (performance (analyzeWebsite ?w ''https://example.com''))"
    using th a t by blast
  have c2: "generic_ux \<notin> set (ux (analyzeWebsite ?w ''https://example.com''))"
    using th a l v by simp
  have c3: "performance (analyzeWebsite ?w ''https://example.com'') \<noteq> []"
    using th a by blast
  have c4: "ux (analyzeWebsite ?w ''https://example.com'') \<noteq> []"
    using th a by blast
  have c5: "performance (analyzeWebsite offline ''https://example.com'') = []"
    using off i by blast
  have c6: "ux (analyzeWebsite offline ''https://example.com'') = []"
    using off i by blast
  have n: "compileResults (analyzeWebsite ?w ''https://example.com'') \<noteq> []"
    using c3 by (simp add: compileResults_def)
  have g: "[] \<notin> set (map items (compileResults (analyzeWebsite ?w ''https://example.com'')))"
    using th by auto
  from a t c1 v c2 c3 c4 i c5 c6 n g show ?thesis by blast
qed

section \<open>The presenter\<close>

text \<open>
  C6. For every six buckets \<open>compileResults\<close> is the presenter of the specification: the
  groups come in the order SEO Optimization, WordPress.com Specific, Performance, User
  Experience, Content & Structure, Accessibility, each with the icon and the priority
  of its table row (high, high, medium, medium, medium, low); a row whose bucket is
  empty is left out, and the items of a group are the bucket as it stands, in insertion
  order.
\<close>

theorem compileResults_presenter: "compileResults b = presenter b"
  by (simp add: compileResults_def presenter_def presenter_table_def presenter_row_def)

section \<open>The URL reported back\<close>

text \<open>
  C7 as it is worded covers every URL string without a scheme. The empty string is
  one, and both handlers answer it with status 400 and no URL at all, as they answer a
  missing \<^verbatim>\<open>url\<close>.
\<close>

theorem empty_url_counterexample:
  "\<not> startsWith [] ''http://'' \<and> \<not> startsWith [] ''https://'' \<and>
   handler offline (post []) = \<lparr>status_code = 400, json = Error ''URL is required''\<rparr> \<and>
   handler_simplified offline (post [])
     = \<lparr>status_code = 400, json = Error ''URL is required''\<rparr>"
  by (simp add: startsWith_def handler_def handler_simplified_def post_def)

text \<open>
  C7, amended. For every non-empty URL string both handlers answer a POST with status
  200, and the URL they report back is the input when it starts with \<^verbatim>\<open>http://\<close> or
  \<^verbatim>\<open>https://\<close>, and \<^verbatim>\<open>https://\<close> followed by the input otherwise.
\<close>

theorem reported_url:
  assumes "url \<noteq> []"
  shows "(\<exists>improvements.
            handler w (post url)
              = \<lparr>status_code = 200,
                 json = Result (if startsWith url ''http://'' \<or> startsWith url ''https://''
                                then url else ''https://'' @ url) improvements\<rparr>) \<and>
         (\<exists>improvements.
            handler_simplified w (post url)
              = \<lparr>status_code = 200,
                 json = Result (if startsWith url ''http://'' \<or> startsWith url ''https://''
                                then url else ''https://'' @ url) improvements\<rparr>)"
  using assms by (simp add: handler_post handler_simplified_post ensureProtocol_def)

theorem reported_url_witness:
  "''example.com'' \<noteq> [] \<and>
   \<not> (startsWith ''example.com'' ''http://'' \<or> startsWith ''example.com'' ''https://'') \<and>
   reply_url (json (handler offline (post ''example.com''))) = ''https://example.com'' \<and>
   reply_url (json (handler_simplified offline (post ''example.com''))) = ''https://example.com''"
proof -
  have n: "''example.com'' \<noteq> []" by simp
  have s: "\<not> (startsWith ''example.com'' ''http://'' \<or> startsWith ''example.com'' ''https://'')"
    by (simp add: startsWith_def)
  from reported_url [OF n, of offline] s
  obtain i1 i2 where
    "handler offline (post ''example.com'')
       = \<lparr>status_code = 200, json = Result (''https://'' @ ''example.com'') i1\<rparr>"
    "handler_simplified offline (post ''example.com'')
       = \<lparr>status_code = 200, json = Result (''https://'' @ ''example.com'') i2\<rparr>"
    by auto
  then show ?thesis using n s by simp
qed

section \<open>Determinism\<close>

text \<open>
  C8. The improvements of a run depend on the world only through the data that arrives
  for the URL, the load time, and the two library functions at these values: two runs
  on the same URL in which the same data arrives after the same load time give the same
  output groups, with the same items in the same order.
\<close>

theorem analysis_deterministic:
  assumes "axios_get w1 url = Inr html" and "axios_get w2 url = Inr html"
    and "now_after w1 - now_before w1 = now_after w2 - now_before w2"
    and "load w1 html = load w2 html"
    and "toFixed1 w1 (now_after w1 - now_before w1) = toFixed1 w2 (now_after w2 - now_before w2)"
  shows "compileResults (analyzeWebsite w1 url) = compileResults (analyzeWebsite w2 url)"
proof -
  have "performanceAnalysis w1 (now_after w1 - now_before w1)
          = performanceAnalysis w2 (now_after w2 - now_before w2)"
    using assms(3,5) by (auto simp: performanceAnalysis_def fun_eq_iff)
  then have "analysis w1 url html no_results = analysis w2 url html no_results"
    using assms(4) by (simp add: analysis_def Let_def split: option.split)
  then show ?thesis
    using assms(1,2) by (simp add: analyzeWebsite_arrived)
qed

theorem analysis_deterministic_witness:
  "now_before (an_hour_later (serving theme_html theme_dollar))
     \<noteq> now_before (serving theme_html theme_dollar) \<and>
   compileResults (analyzeWebsite (serving theme_html theme_dollar) ''https://example.com'')
     = compileResults
         (analyzeWebsite (an_hour_later (serving theme_html theme_dollar)) ''https://example.com'')"
proof -
  let ?w1 = "serving theme_html theme_dollar"
  let ?w2 = "an_hour_later ?w1"
  have a: "axios_get ?w1 ''https://example.com'' = Inr (JString theme_html)"
    by (simp add: serving_def)
  have b: "axios_get ?w2 ''https://example.com'' = Inr (JString theme_html)"
    by (simp add: serving_def an_hour_later_def)
  have c: "now_after ?w1 - now_before ?w1 = now_after ?w2 - now_before ?w2"
    by (simp add: serving_def an_hour_later_def)
  have d: "load ?w1 (JString theme_html) = load ?w2 (JString theme_html)"
    by (simp add: serving_def an_hour_later_def)
  have e: "toFixed1 ?w1 (now_after ?w1 - now_before ?w1)
             = toFixed1 ?w2 (now_after ?w2 - now_before ?w2)"
    by (simp add: serving_def an_hour_later_def)
  have f: "now_before ?w2 \<noteq> now_before ?w1"
    by (simp add: serving_def an_hour_later_def)
  show ?thesis
    using analysis_deterministic [OF a b c d e] f by simp
qed

section \<open>Images without alt text\<close>

text \<open>
  C9 as it is worded interpolates the number of \<^verbatim>\<open><img>\<close> elements that lack an
  \<^verbatim>\<open>alt\<close> attribute. On the page with one image without the attribute and one with
  \<^verbatim>\<open>alt=""\<close> that number is 1, and the advisory says 2.
\<close>

theorem image_alt_count_counterexample:
  "length (filter lacksAltAttribute
             (cheerio_load (serving theme_html theme_dollar) theme_html ''img'')) = 1 \<and>
   accessibility (analyzeWebsite (serving theme_html theme_dollar) ''https://example.com'')
     = [images_without_alt 2] \<and>
   text (images_without_alt 2) = ''Found 2 images without alt text - add for accessibility'' \<and>
   images_without_alt 2 \<noteq> images_without_alt 1"
proof -
  let ?w = "serving theme_html theme_dollar"
  have a: "axios_get ?w ''https://example.com'' = Inr (JString theme_html)"
    by (simp add: serving_def)
  have ld: "load ?w (JString theme_html) = Some (cheerio_load ?w theme_html)"
    by simp
  have l: "length (filter lacksAltAttribute (cheerio_load ?w theme_html ''img'')) = 1"
    by (simp add: serving_def theme_dollar_def lacksAltAttribute_def)
  have n: "imagesWithoutAlt (cheerio_load ?w theme_html ''img'') = 2"
    by (simp add: imagesWithoutAlt_count serving_def theme_dollar_def altAbsentOrEmpty_def)
  have acc: "accessibility (analyzeWebsite ?w ''https://example.com'') = [images_without_alt 2]"
    by (simp add: accessibility_analyzeWebsite [OF a ld] n)
  have t2: "toString 2 = ''2''" by code_simp
  have t1: "toString (Suc 0) = ''1''" by code_simp
  have shown: "text (images_without_alt 2)
               = ''Found 2 images without alt text - add for accessibility''"
    by (simp add: images_without_alt_def t2)
  have ne: "images_without_alt 2 \<noteq> images_without_alt 1"
    by (simp add: images_without_alt_def t1 t2)
  from l acc shown ne show ?thesis by simp
qed

text \<open>
  C9, amended. When the page arrives and has no \<^verbatim>\<open><img>\<close> element, the accessibility
  bucket is empty and no Accessibility group is sent. When the number of \<^verbatim>\<open><img>\<close>
  elements whose \<^verbatim>\<open>alt\<close> attribute is absent or empty is above zero, the accessibility
  bucket holds exactly one advisory, with that number interpolated. This holds for
  whatever arrives and the DOM library loads as the document \<open>dollar\<close>; a page that is
  the text \<open>s\<close> is loaded as \<open>cheerio_load w s\<close>.
\<close>

theorem image_alt_advisory:
  assumes "axios_get w url = Inr html" and "load w html = Some dollar"
  shows "(dollar ''img'' = [] \<longrightarrow>
            accessibility (analyzeWebsite w url) = [] \<and>
            ''Accessibility'' \<notin> set (map category (compileResults (analyzeWebsite w url)))) \<and>
         (0 < length (filter altAbsentOrEmpty (dollar ''img'')) \<longrightarrow>
            accessibility (analyzeWebsite w url)
              = [images_without_alt (length (filter altAbsentOrEmpty (dollar ''img'')))])"
proof -
  have acc: "accessibility (analyzeWebsite w url) =
               (if 0 < length (filter altAbsentOrEmpty (dollar ''img''))
                then [images_without_alt (length (filter altAbsentOrEmpty (dollar ''img'')))]
                else [])"
    using assms
    by (simp add: accessibility_analyzeWebsite imagesWithoutAlt_count)
  have grp: "accessibility (analyzeWebsite w url) = [] \<longrightarrow>
               ''Accessibility'' \<notin> set (map category (compileResults (analyzeWebsite w url)))"
    using no_group_of_empty_bucket(1) by blast
  from acc grp show ?thesis
    by (auto simp del: set_map)
qed

theorem image_alt_advisory_witness:
  "cheerio_load (serving blank_title_html blank_title_dollar) blank_title_html ''img'' = [] \<and>
   accessibility (analyzeWebsite (serving blank_title_html blank_title_dollar)
                    ''https://example.com'') = [] \<and>
   ''Accessibility'' \<notin> set (map category (compileResults
       (analyzeWebsite (serving blank_title_html blank_title_dollar) ''https://example.com''))) \<and>
   length (filter altAbsentOrEmpty
             (cheerio_load (serving theme_html theme_dollar) theme_html ''img'')) = 2 \<and>
   accessibility (analyzeWebsite (serving theme_html theme_dollar) ''https://example.com'')
     = [images_without_alt 2]"
proof -
  let ?w1 = "serving blank_title_html blank_title_dollar"
  let ?w2 = "serving theme_html theme_dollar"
  have a1: "axios_get ?w1 ''https://example.com'' = Inr (JString blank_title_html)"
    by (simp add: serving_def)
  have l1: "load ?w1 (JString blank_title_html) = Some (cheerio_load ?w1 blank_title_html)"
    by simp
  have i1: "cheerio_load ?w1 blank_title_html ''img'' = []"
    by (simp add: serving_def blank_title_dollar_def)
  have a2: "axios_get ?w2 ''https://example.com'' = Inr (JString theme_html)"
    by (simp add: serving_def)
  have l2: "load ?w2 (JString theme_html) = Some (cheerio_load ?w2 theme_html)"
    by simp
  have i2: "length (filter altAbsentOrEmpty (cheerio_load ?w2 theme_html ''img'')) = 2"
    by (simp add: serving_def theme_dollar_def altAbsentOrEmpty_def)
  show ?thesis
    using image_alt_advisory [OF a1 l1] image_alt_advisory [OF a2 l2] i1 i2 by simp
qed

section \<open>An empty alt attribute\<close>




end
